theory Spec2Isabelle
  imports
    Complex_Main
    "HOL-Library.Word"
    "HOL-Library.Signed_Division"
    "HOL-Library.AList"
    "HOL-Library.List_Lexorder"
    "HOL-Library.Char_ord"
    "HOL-Library.Multiset"
begin

section \<open>Go values: integers, maps, time\<close>

text \<open>
  The sampling and diff engine of mongotop (package \<^verbatim>\<open>mongotop\<close>) is embedded function
  by function: the three \<^verbatim>\<open>Diff\<close> methods, the comparator \<^verbatim>\<open>sortableTotals.Less\<close>,
  the three \<^verbatim>\<open>Grid\<close> methods, \<^verbatim>\<open>OperationMetricsDiff.JSON\<close>, and the three sampling
  steps \<^verbatim>\<open>runTopDiff\<close>, \<^verbatim>\<open>runServerStatusDiff\<close> and \<^verbatim>\<open>runOperationMetricsDiff\<close>.
  The polling loop \<^verbatim>\<open>Run\<close> with its sleeping and logging, the dispatch \<^verbatim>\<open>runDiff\<close>
  and the JSON forms produced by \<^verbatim>\<open>json.Marshal\<close> are not part of the model.

  Go's \<^verbatim>\<open>int64\<close> is a 64-bit word; Go's \<^verbatim>\<open>int\<close> is taken at its width on 64-bit
  targets, also a 64-bit word.  Addition and subtraction wrap around, values are read as
  two's complement with \<open>sint\<close>, and \<^verbatim>\<open>/\<close> truncates towards zero.
\<close>

type_synonym int64 = "64 word"
type_synonym go_int = "64 word"

text \<open>
  Go's integer quotient \<^verbatim>\<open>a / b\<close>.  Every divisor in the embedded code is a non-zero
  literal (1000, 1e6, 1e9), so the run-time panic of a zero divisor has no branch here.
\<close>

definition quo :: "64 word \<Rightarrow> 64 word \<Rightarrow> 64 word" where
  "quo a b = word_of_int (sint a sdiv sint b)"

text \<open>
  A Go map is an association list with one pair per key; the order of the list is the
  order in which one particular \<^verbatim>\<open>range\<close> loop visits the map, which Go leaves
  unspecified.  \<open>map_of\<close> is the lookup \<^verbatim>\<open>m[k]\<close> with its \<^verbatim>\<open>ok\<close> flag,
  \<open>AList.update\<close> the store \<^verbatim>\<open>m[k] = v\<close>.
\<close>

type_synonym ('k, 'v) gomap = "('k \<times> 'v) list"

definition keys :: "('k, 'v) gomap \<Rightarrow> 'k set" where
  "keys m = fst ` set m"

text \<open>The one-result form \<^verbatim>\<open>m[k]\<close>: a missing key reads as the zero value \<open>z\<close>.\<close>

definition index :: "'v \<Rightarrow> ('k, 'v) gomap \<Rightarrow> 'k \<Rightarrow> 'v" where
  "index z m k = (case map_of m k of None \<Rightarrow> z | Some v \<Rightarrow> v)"

text \<open>
  A \<^verbatim>\<open>time.Time\<close> is an instant in nanoseconds on the integer line, a
  \<^verbatim>\<open>time.Duration\<close> an \<^verbatim>\<open>int64\<close> of nanoseconds.  \<^verbatim>\<open>t.Sub(u)\<close> saturates at the
  largest and smallest duration.
\<close>

type_synonym Time = int
type_synonym Duration = int64

definition Sub :: "Time \<Rightarrow> Time \<Rightarrow> Duration" where
  "Sub t u =
     (if t - u > 2 ^ 63 - 1 then word_of_int (2 ^ 63 - 1)
      else if t - u < - (2 ^ 63) then word_of_int (- (2 ^ 63))
      else word_of_int (t - u))"

section \<open>Namespace-top samples\<close>

record TopField =
  Time :: go_int
  Count :: go_int

record NSTopInfo =
  Total :: TopField
  Read :: TopField
  Write :: TopField

record Top =
  numCores :: go_int
  time :: Time
  Totals :: "(string, NSTopInfo) gomap"

record TopDiff =
  numCores :: go_int
  elapsed :: Duration
  currentTop :: "Top option"
  listCount :: go_int
  sortLatency :: bool
  Totals :: "(string, NSTopInfo) gomap"
  Time :: Time

text \<open>The entry \<^verbatim>\<open>Top.Diff\<close> stores for a namespace found in both samples.\<close>

definition Top_Diff_entry :: "NSTopInfo \<Rightarrow> NSTopInfo \<Rightarrow> NSTopInfo" where
  "Top_Diff_entry curNSInfo prevNSInfo =
     \<lparr> NSTopInfo.Total = \<lparr> TopField.Time =
                   quo (TopField.Time (NSTopInfo.Total curNSInfo) - TopField.Time (NSTopInfo.Total prevNSInfo)) 1000,
                 Count = Count (NSTopInfo.Total curNSInfo) - Count (NSTopInfo.Total prevNSInfo) \<rparr>,
       NSTopInfo.Read = \<lparr> TopField.Time =
                   quo (TopField.Time (NSTopInfo.Read curNSInfo)
                          - TopField.Time (NSTopInfo.Read prevNSInfo)) 1000,
                 Count = Count (NSTopInfo.Read curNSInfo) - Count (NSTopInfo.Read prevNSInfo) \<rparr>,
       NSTopInfo.Write = \<lparr> TopField.Time =
                   quo (TopField.Time (NSTopInfo.Write curNSInfo)
                          - TopField.Time (NSTopInfo.Write prevNSInfo)) 1000,
                 Count = Count (NSTopInfo.Write curNSInfo)
                          - Count (NSTopInfo.Write prevNSInfo) \<rparr> \<rparr>"

text \<open>One pass of the loop \<^verbatim>\<open>for ns, prevNSInfo := range prevTotals\<close>.\<close>

definition Top_Diff_step ::
  "(string, NSTopInfo) gomap \<Rightarrow> string \<times> NSTopInfo \<Rightarrow>
   (string, NSTopInfo) gomap \<Rightarrow> (string, NSTopInfo) gomap" where
  "Top_Diff_step curTotals p totals =
     (case map_of curTotals (fst p) of
        Some curNSInfo \<Rightarrow> AList.update (fst p) (Top_Diff_entry curNSInfo (snd p)) totals
      | None \<Rightarrow> totals)"

text \<open>
  \<^verbatim>\<open>func (top Top) Diff(previous Top, listCount int, sortLatency bool) TopDiff\<close>.  The
  reading of the clock for the field \<^verbatim>\<open>Time\<close> is the argument \<open>now\<close>.
\<close>

definition Top_Diff :: "Time \<Rightarrow> Top \<Rightarrow> Top \<Rightarrow> go_int \<Rightarrow> bool \<Rightarrow> TopDiff" where
  "Top_Diff now cur previous lc sl =
     \<lparr> TopDiff.numCores = Top.numCores previous,
       elapsed = Sub (Top.time cur) (Top.time previous),
       currentTop = Some cur,
       listCount = lc,
       sortLatency = sl,
       TopDiff.Totals = fold (Top_Diff_step (Top.Totals cur)) (Top.Totals previous) [],
       TopDiff.Time = now \<rparr>"

section \<open>Lock-usage samples\<close>

record ReadWriteLockTimes =
  Read :: int64
  Write :: int64
  ReadLower :: int64
  WriteLower :: int64

record LockStats =
  AcquireCount :: "ReadWriteLockTimes option"
  TimeLockedMicros :: ReadWriteLockTimes
  TimeAcquiringMicros :: ReadWriteLockTimes

text \<open>\<^verbatim>\<open>Locks\<close> is \<open>None\<close> for the nil map of a reply without the field.\<close>

record ServerStatus =
  time :: Time
  Locks :: "(string, LockStats) gomap option"

record LockDelta =
  Read :: int64
  Write :: int64

record ServerStatusDiff =
  currentServerStatus :: "ServerStatus option"
  listCount :: go_int
  Totals :: "(string, LockDelta) gomap"
  Time :: Time

text \<open>Ranging over a nil map visits nothing; reading one finds nothing.\<close>

definition entries_of :: "('k, 'v) gomap option \<Rightarrow> ('k, 'v) gomap" where
  "entries_of m = (case m of None \<Rightarrow> [] | Some kvs \<Rightarrow> kvs)"

definition ServerStatus_Diff_entry :: "LockStats \<Rightarrow> LockStats \<Rightarrow> LockDelta" where
  "ServerStatus_Diff_entry curNSInfo prevNSInfo =
     (let prevTimeLocked = TimeLockedMicros prevNSInfo;
          curTimeLocked = TimeLockedMicros curNSInfo
      in \<lparr> LockDelta.Read =
             quo (ReadWriteLockTimes.Read curTimeLocked + ReadLower curTimeLocked
                   - (ReadWriteLockTimes.Read prevTimeLocked + ReadLower prevTimeLocked)) 1000,
           LockDelta.Write =
             quo (ReadWriteLockTimes.Write curTimeLocked + WriteLower curTimeLocked
                   - (ReadWriteLockTimes.Write prevTimeLocked + WriteLower prevTimeLocked)) 1000 \<rparr>)"

definition ServerStatus_Diff_step ::
  "(string, LockStats) gomap \<Rightarrow> string \<times> LockStats \<Rightarrow>
   (string, LockDelta) gomap \<Rightarrow> (string, LockDelta) gomap" where
  "ServerStatus_Diff_step curLocks p totals =
     (case map_of curLocks (fst p) of
        Some curNSInfo \<Rightarrow> AList.update (fst p) (ServerStatus_Diff_entry curNSInfo (snd p)) totals
      | None \<Rightarrow> totals)"

text \<open>\<^verbatim>\<open>func (ss ServerStatus) Diff(previous ServerStatus, listCount int) ServerStatusDiff\<close>\<close>

definition ServerStatus_Diff ::
  "Time \<Rightarrow> ServerStatus \<Rightarrow> ServerStatus \<Rightarrow> go_int \<Rightarrow> ServerStatusDiff" where
  "ServerStatus_Diff now ss previous lc =
     \<lparr> currentServerStatus = Some ss,
       ServerStatusDiff.listCount = lc,
       ServerStatusDiff.Totals =
         fold (ServerStatus_Diff_step (entries_of (ServerStatus.Locks ss))) (entries_of (ServerStatus.Locks previous)) [],
       ServerStatusDiff.Time = now \<rparr>"

section \<open>Operation-metrics samples\<close>

record OperationMetricsMemberInfo =
  DocBytesRead :: int64
  DocUnitsRead :: int64
  IndexEntryBytesRead :: int64
  IndexEntryUnitsRead :: int64
  KeysSorted :: int64
  SorterSpills :: int64
  DocUnitsReturned :: int64
  CursorSeeks :: int64

record OperationMetricsEntry =
  DBName :: string
  PrimaryMetrics :: OperationMetricsMemberInfo
  SecondaryMetrics :: OperationMetricsMemberInfo
  DocBytesWritten :: int64
  DocUnitsWritten :: int64
  IndexEntryBytesWritten :: int64
  IndexEntryUnitsWritten :: int64
  CpuNanos :: int64

record OperationMetricsMemberInfoDelta =
  DocBytesRead :: int64
  DocUnitsRead :: int64
  IndexEntryBytesRead :: int64
  IndexEntryUnitsRead :: int64
  KeysSorted :: int64
  SorterSpills :: int64
  DocUnitsReturned :: int64
  CursorSeeks :: int64

record OperationMetricsEntryDelta =
  PrimaryMetrics :: OperationMetricsMemberInfoDelta
  SecondaryMetrics :: OperationMetricsMemberInfoDelta
  DocBytesWritten :: int64
  DocUnitsWritten :: int64
  IndexEntryBytesWritten :: int64
  IndexEntryUnitsWritten :: int64
  CpuNanos :: int64

record OperationMetrics =
  numCores :: go_int
  time :: Time
  Entries :: "(string, OperationMetricsEntry) gomap"

record OperationMetricsDiff =
  numCores :: go_int
  elapsed :: Duration
  currentOperation :: "OperationMetrics option"
  listCount :: go_int
  sortTotal :: bool
  Totals :: "(string, OperationMetricsEntryDelta) gomap"
  Time :: Time

text \<open>\<^verbatim>\<open>func (e OperationMetricsEntry) TotalDocUnits() int64\<close>\<close>

definition Entry_TotalDocUnits :: "OperationMetricsEntry \<Rightarrow> int64" where
  "Entry_TotalDocUnits e =
     OperationMetricsMemberInfo.DocUnitsRead (OperationMetricsEntry.PrimaryMetrics e)
     + OperationMetricsMemberInfo.DocUnitsRead (OperationMetricsEntry.SecondaryMetrics e)
     + OperationMetricsEntry.DocUnitsWritten e"

text \<open>\<^verbatim>\<open>func (d OperationMetricsEntryDelta) TotalDocUnits() int64\<close>\<close>

definition Delta_TotalDocUnits :: "OperationMetricsEntryDelta \<Rightarrow> int64" where
  "Delta_TotalDocUnits d =
     OperationMetricsMemberInfoDelta.DocUnitsRead (OperationMetricsEntryDelta.PrimaryMetrics d)
     + OperationMetricsMemberInfoDelta.DocUnitsRead (OperationMetricsEntryDelta.SecondaryMetrics d)
     + OperationMetricsEntryDelta.DocUnitsWritten d"

definition MemberInfo_delta ::
  "OperationMetricsMemberInfo \<Rightarrow> OperationMetricsMemberInfo \<Rightarrow> OperationMetricsMemberInfoDelta" where
  "MemberInfo_delta c p =
     \<lparr> OperationMetricsMemberInfoDelta.DocBytesRead =
         OperationMetricsMemberInfo.DocBytesRead c - OperationMetricsMemberInfo.DocBytesRead p,
       OperationMetricsMemberInfoDelta.DocUnitsRead =
         OperationMetricsMemberInfo.DocUnitsRead c - OperationMetricsMemberInfo.DocUnitsRead p,
       OperationMetricsMemberInfoDelta.IndexEntryBytesRead =
         OperationMetricsMemberInfo.IndexEntryBytesRead c
           - OperationMetricsMemberInfo.IndexEntryBytesRead p,
       OperationMetricsMemberInfoDelta.IndexEntryUnitsRead =
         OperationMetricsMemberInfo.IndexEntryUnitsRead c
           - OperationMetricsMemberInfo.IndexEntryUnitsRead p,
       OperationMetricsMemberInfoDelta.KeysSorted =
         OperationMetricsMemberInfo.KeysSorted c - OperationMetricsMemberInfo.KeysSorted p,
       OperationMetricsMemberInfoDelta.SorterSpills =
         OperationMetricsMemberInfo.SorterSpills c - OperationMetricsMemberInfo.SorterSpills p,
       OperationMetricsMemberInfoDelta.DocUnitsReturned =
         OperationMetricsMemberInfo.DocUnitsReturned c
           - OperationMetricsMemberInfo.DocUnitsReturned p,
       OperationMetricsMemberInfoDelta.CursorSeeks =
         OperationMetricsMemberInfo.CursorSeeks c - OperationMetricsMemberInfo.CursorSeeks p \<rparr>"

definition OperationMetrics_Diff_entry ::
  "OperationMetricsEntry \<Rightarrow> OperationMetricsEntry \<Rightarrow> OperationMetricsEntryDelta" where
  "OperationMetrics_Diff_entry curInfo prevInfo =
     \<lparr> OperationMetricsEntryDelta.PrimaryMetrics =
         MemberInfo_delta (OperationMetricsEntry.PrimaryMetrics curInfo)
           (OperationMetricsEntry.PrimaryMetrics prevInfo),
       OperationMetricsEntryDelta.SecondaryMetrics =
         MemberInfo_delta (OperationMetricsEntry.SecondaryMetrics curInfo)
           (OperationMetricsEntry.SecondaryMetrics prevInfo),
       OperationMetricsEntryDelta.DocBytesWritten =
         OperationMetricsEntry.DocBytesWritten curInfo
           - OperationMetricsEntry.DocBytesWritten prevInfo,
       OperationMetricsEntryDelta.DocUnitsWritten =
         OperationMetricsEntry.DocUnitsWritten curInfo
           - OperationMetricsEntry.DocUnitsWritten prevInfo,
       OperationMetricsEntryDelta.IndexEntryBytesWritten =
         OperationMetricsEntry.IndexEntryBytesWritten curInfo
           - OperationMetricsEntry.IndexEntryBytesWritten prevInfo,
       OperationMetricsEntryDelta.IndexEntryUnitsWritten =
         OperationMetricsEntry.IndexEntryUnitsWritten curInfo
           - OperationMetricsEntry.IndexEntryUnitsWritten prevInfo,
       OperationMetricsEntryDelta.CpuNanos =
         OperationMetricsEntry.CpuNanos curInfo - OperationMetricsEntry.CpuNanos prevInfo \<rparr>"

definition OperationMetrics_Diff_step ::
  "(string, OperationMetricsEntry) gomap \<Rightarrow> string \<times> OperationMetricsEntry \<Rightarrow>
   (string, OperationMetricsEntryDelta) gomap \<Rightarrow> (string, OperationMetricsEntryDelta) gomap" where
  "OperationMetrics_Diff_step curEntries p totals =
     (case map_of curEntries (fst p) of
        Some curInfo \<Rightarrow> AList.update (fst p) (OperationMetrics_Diff_entry curInfo (snd p)) totals
      | None \<Rightarrow> totals)"

text \<open>
  \<^verbatim>\<open>func (metrics OperationMetrics) Diff(previous OperationMetrics, listCount int,
  sortTotal bool) OperationMetricsDiff\<close>
\<close>

definition OperationMetrics_Diff ::
  "Time \<Rightarrow> OperationMetrics \<Rightarrow> OperationMetrics \<Rightarrow> go_int \<Rightarrow> bool \<Rightarrow> OperationMetricsDiff" where
  "OperationMetrics_Diff now metrics previous lc st =
     \<lparr> OperationMetricsDiff.numCores = OperationMetrics.numCores previous,
       OperationMetricsDiff.elapsed =
         Sub (OperationMetrics.time metrics) (OperationMetrics.time previous),
       currentOperation = Some metrics,
       OperationMetricsDiff.listCount = lc,
       sortTotal = st,
       OperationMetricsDiff.Totals =
         fold (OperationMetrics_Diff_step (Entries metrics)) (Entries previous) [],
       OperationMetricsDiff.Time = now \<rparr>"

section \<open>Floating point\<close>

text \<open>
  A \<^verbatim>\<open>float64\<close> is one of the three special values of IEEE 754 or a finite value.
  Finite values are kept as exact reals: the rounding of a conversion or a quotient to
  53 bits is not modelled, and the two zeros are one value.  What the code below depends
  on is exact in IEEE 754 as well: a conversion from an integer is finite, and zero
  exactly for the integer zero; a quotient by zero is \<open>NaN\<close> for a zero dividend and an
  infinity of the dividend's sign otherwise (every divisor in the code is converted from
  an integer, so it is never the negative zero); \<open>NaN\<close> propagates; and a comparison
  with \<open>NaN\<close> is false.
\<close>

datatype float64 = NaN | PInf | NInf | Fin real

text \<open>\<^verbatim>\<open>math.IsNaN\<close>\<close>

definition IsNaN :: "float64 \<Rightarrow> bool" where
  "IsNaN f = (f = NaN)"

text \<open>The conversions \<^verbatim>\<open>float64(x)\<close> of an \<^verbatim>\<open>int\<close> or \<^verbatim>\<open>int64\<close>.\<close>

definition float64_of_int :: "64 word \<Rightarrow> float64" where
  "float64_of_int x = Fin (real_of_int (sint x))"

text \<open>The operators \<^verbatim>\<open>==\<close> and \<^verbatim>\<open><\<close> on \<^verbatim>\<open>float64\<close>.\<close>

definition float_eq :: "float64 \<Rightarrow> float64 \<Rightarrow> bool" where
  "float_eq x y = (x \<noteq> NaN \<and> y \<noteq> NaN \<and> x = y)"

fun float_less :: "float64 \<Rightarrow> float64 \<Rightarrow> bool" where
  "float_less (Fin a) (Fin b) = (a < b)"
| "float_less (Fin a) PInf = True"
| "float_less NInf (Fin b) = True"
| "float_less NInf PInf = True"
| "float_less _ _ = False"

text \<open>The operators \<^verbatim>\<open>/\<close> and \<^verbatim>\<open>*\<close> on \<^verbatim>\<open>float64\<close>; neither panics.\<close>

fun fdiv :: "float64 \<Rightarrow> float64 \<Rightarrow> float64" where
  "fdiv (Fin a) (Fin b) =
     (if b = 0 then (if a = 0 then NaN else if 0 < a then PInf else NInf) else Fin (a / b))"
| "fdiv (Fin a) PInf = Fin 0"
| "fdiv (Fin a) NInf = Fin 0"
| "fdiv PInf (Fin b) = (if 0 \<le> b then PInf else NInf)"
| "fdiv NInf (Fin b) = (if 0 \<le> b then NInf else PInf)"
| "fdiv _ _ = NaN"

fun fmul :: "float64 \<Rightarrow> float64 \<Rightarrow> float64" where
  "fmul (Fin a) (Fin b) = Fin (a * b)"
| "fmul PInf (Fin b) = (if b = 0 then NaN else if 0 < b then PInf else NInf)"
| "fmul NInf (Fin b) = (if b = 0 then NaN else if 0 < b then NInf else PInf)"
| "fmul (Fin a) PInf = (if a = 0 then NaN else if 0 < a then PInf else NInf)"
| "fmul (Fin a) NInf = (if a = 0 then NaN else if 0 < a then NInf else PInf)"
| "fmul PInf PInf = PInf"
| "fmul NInf NInf = PInf"
| "fmul PInf NInf = NInf"
| "fmul NInf PInf = NInf"
| "fmul _ _ = NaN"

section \<open>Formatting\<close>

text \<open>
  \<^verbatim>\<open>fmt.Sprintf("%vms", n)\<close>: the decimal digits of a signed integer and the suffix.
\<close>

function Itoa_nat :: "nat \<Rightarrow> string" where
  "Itoa_nat n =
     (if n < 10 then [''0123456789'' ! n]
      else Itoa_nat (n div 10) @ [''0123456789'' ! (n mod 10)])"
  by pat_completeness auto
termination
  by (relation "measure (\<lambda>n. n)") auto

declare Itoa_nat.simps [simp del]

definition Itoa :: "int \<Rightarrow> string" where
  "Itoa i = (if i < 0 then CHR ''-'' # Itoa_nat (nat (- i)) else Itoa_nat (nat i))"

definition Sprintf_v_ms :: "64 word \<Rightarrow> string" where
  "Sprintf_v_ms n = Itoa (sint n) @ ''ms''"

text \<open>
  \<^verbatim>\<open>fmt.Sprintf("%0.Pf<suffix>", x)\<close>.  The three special values print as \<^verbatim>\<open>NaN\<close>,
  \<^verbatim>\<open>+Inf\<close> and \<^verbatim>\<open>-Inf\<close>; the digits of a finite value at precision \<open>P\<close> are left to
  the formatter \<open>ff\<close> of the standard library, a parameter of the rendering.
\<close>

definition Sprintf_f :: "(nat \<Rightarrow> real \<Rightarrow> string) \<Rightarrow> nat \<Rightarrow> string \<Rightarrow> float64 \<Rightarrow> string" where
  "Sprintf_f ff P suffix x =
     (case x of NaN \<Rightarrow> ''NaN'' | PInf \<Rightarrow> ''+Inf'' | NInf \<Rightarrow> ''-Inf'' | Fin r \<Rightarrow> ff P r) @ suffix"

section \<open>Ranking\<close>

record sortableTotal =
  Name :: string
  Total :: float64
  Current :: int64

text \<open>
  \<^verbatim>\<open>func (a sortableTotals) Less(i, j int) bool\<close>, on the two elements \<^verbatim>\<open>a[i]\<close> and
  \<^verbatim>\<open>a[j]\<close>.  Strings compare bytewise, \<^verbatim>\<open>Current\<close> as a signed integer.
\<close>

definition Less :: "sortableTotal \<Rightarrow> sortableTotal \<Rightarrow> bool" where
  "Less ai aj =
     (if \<not> IsNaN (sortableTotal.Total ai) \<and> IsNaN (sortableTotal.Total aj) then False
      else if IsNaN (sortableTotal.Total ai) \<and> \<not> IsNaN (sortableTotal.Total aj) then True
      else if IsNaN (sortableTotal.Total ai) \<or> IsNaN (sortableTotal.Total aj) then True
      else if float_eq (sortableTotal.Total ai) (sortableTotal.Total aj) then
        (if Current ai = Current aj then Name ai > Name aj
         else sint (Current ai) < sint (Current aj))
      else float_less (sortableTotal.Total ai) (sortableTotal.Total aj))"

text \<open>\<^verbatim>\<open>sort.Reverse\<close>: the comparison with its arguments exchanged.\<close>

definition Reverse :: "('a \<Rightarrow> 'a \<Rightarrow> bool) \<Rightarrow> 'a \<Rightarrow> 'a \<Rightarrow> bool" where
  "Reverse lt x y = lt y x"

text \<open>
  \<^verbatim>\<open>sort.Sort\<close> is the standard library's, not the repository's.  It is modelled by the
  library's \<^verbatim>\<open>insertionSort\<close>, the procedure it runs on a slice of at most 12 elements:
  \<^verbatim>\<open>
  for i := a + 1; i < b; i++ {
    for j := i; j > a && data.Less(j, j-1); j-- { data.Swap(j, j-1) }
  }\<close>
  \<open>sift lt x ys\<close> is the inner loop, \<open>lt\<close> the comparison: \<open>ys\<close> is the already ordered prefix read from
  its right end, and \<open>x\<close> moves left while it is less than its left neighbour.
\<close>

fun sift :: "('a \<Rightarrow> 'a \<Rightarrow> bool) \<Rightarrow> 'a \<Rightarrow> 'a list \<Rightarrow> 'a list" where
  "sift lt x [] = [x]"
| "sift lt x (y # ys) = (if lt x y then y # sift lt x ys else x # y # ys)"

definition Sort :: "('a \<Rightarrow> 'a \<Rightarrow> bool) \<Rightarrow> 'a list \<Rightarrow> 'a list" where
  "Sort lt xs = rev (fold (sift lt) xs [])"

text \<open>\<^verbatim>\<open>sort.Sort(sort.Reverse(totals))\<close>\<close>

definition ranked :: "sortableTotal list \<Rightarrow> sortableTotal list" where
  "ranked totals = Sort (Reverse Less) totals"

text \<open>
  The order the specification words for the rendered rows, as amended by the code: a
  larger primary metric first, then a larger current value, then the smaller key.
\<close>

definition ranks_before :: "sortableTotal \<Rightarrow> sortableTotal \<Rightarrow> bool" where
  "ranks_before x y =
     (float_less (sortableTotal.Total y) (sortableTotal.Total x)
      \<or> (sortableTotal.Total x = sortableTotal.Total y
          \<and> (sint (Current y) < sint (Current x)
              \<or> (Current x = Current y \<and> Name x < Name y))))"

section \<open>Rendering a diff as a grid\<close>

text \<open>
  The methods \<^verbatim>\<open>Grid\<close> write a header row and one row per ranked entry into a
  \<^verbatim>\<open>text.GridWriter\<close>.  The model returns the rows of cells that were written; the
  alignment of columns by \<^verbatim>\<open>Flush\<close> belongs to the grid writer and is not modelled.
  The arguments \<open>ff\<close> and \<open>stamp\<close> are the library's formatter of finite floats and the
  formatted reading of the clock in the header.  A \<^verbatim>\<open>Grid\<close> dereferences the pointer to
  the current sample once per entry of \<^verbatim>\<open>Totals\<close>, which panics for a nil pointer.
\<close>

datatype panic = NilPointerDereference

text \<open>
  The rendering loop shared by the three methods,
  \<^verbatim>\<open>for i, st := range totals { ...; out.EndRow(); if i >= listCount-1 { break } }\<close>,
  with \<open>row\<close> for the cells of one entry.  The subtraction is Go's, on \<^verbatim>\<open>int\<close>.
\<close>

fun Grid_rows ::
  "(sortableTotal \<Rightarrow> string list) \<Rightarrow> go_int \<Rightarrow> nat \<Rightarrow> sortableTotal list \<Rightarrow> string list list" where
  "Grid_rows row lc i [] = []"
| "Grid_rows row lc i (st # sts) =
     row st # (if sint (lc - 1) \<le> int i then [] else Grid_rows row lc (Suc i) sts)"

text \<open>The substitution \<^verbatim>\<open>if listCount == 0 { listCount = 9 }\<close>.\<close>

definition default_listCount :: "go_int \<Rightarrow> go_int" where
  "default_listCount lc = (if lc = 0 then 9 else lc)"

subsection \<open>\<^verbatim>\<open>func (td TopDiff) Grid() string\<close>\<close>

definition NSTopInfo_zero :: NSTopInfo where
  "NSTopInfo_zero =
     \<lparr> NSTopInfo.Total = \<lparr> TopField.Time = 0, Count = 0 \<rparr>,
       NSTopInfo.Read = \<lparr> TopField.Time = 0, Count = 0 \<rparr>,
       NSTopInfo.Write = \<lparr> TopField.Time = 0, Count = 0 \<rparr> \<rparr>"

definition TopDiff_sortable :: "TopDiff \<Rightarrow> Top \<Rightarrow> string \<times> NSTopInfo \<Rightarrow> sortableTotal" where
  "TopDiff_sortable td cur p =
     (if sortLatency td then
        \<lparr> Name = fst p,
          sortableTotal.Total =
            fdiv (float64_of_int (TopField.Time (NSTopInfo.Total (snd p))))
                 (float64_of_int (Count (NSTopInfo.Total (snd p)))),
          Current = TopField.Time (NSTopInfo.Total (index NSTopInfo_zero (Top.Totals cur) (fst p))) \<rparr>
      else
        \<lparr> Name = fst p,
          sortableTotal.Total = float64_of_int (TopField.Time (NSTopInfo.Total (snd p))),
          Current = TopField.Time (NSTopInfo.Total (index NSTopInfo_zero (Top.Totals cur) (fst p))) \<rparr>)"

definition TopDiff_totals :: "TopDiff \<Rightarrow> panic + sortableTotal list" where
  "TopDiff_totals td =
     (if TopDiff.Totals td = [] then Inr []
      else case currentTop td of
             None \<Rightarrow> Inl NilPointerDereference
           | Some cur \<Rightarrow> Inr (map (TopDiff_sortable td cur) (TopDiff.Totals td)))"

definition TopDiff_row ::
  "(nat \<Rightarrow> real \<Rightarrow> string) \<Rightarrow> TopDiff \<Rightarrow> float64 \<Rightarrow> float64 \<Rightarrow> sortableTotal \<Rightarrow> string list" where
  "TopDiff_row ff td elapsedMillis elapsedSeconds st =
     (let diff = index NSTopInfo_zero (TopDiff.Totals td) (Name st);
          t = NSTopInfo.Total diff; r = NSTopInfo.Read diff; w = NSTopInfo.Write diff
      in [Name st,
          Sprintf_v_ms (TopField.Time t),
          Sprintf_f ff 1 ''%''
            (fmul (fdiv (float64_of_int (TopField.Time t)) elapsedMillis) (Fin 100)),
          Sprintf_f ff 2 ''%''
            (fdiv (fmul (fdiv (float64_of_int (TopField.Time t)) elapsedMillis) (Fin 100))
                  (float64_of_int (TopDiff.numCores td))),
          Sprintf_f ff 1 ''ms/op''
            (fdiv (float64_of_int (TopField.Time t)) (float64_of_int (Count t))),
          Sprintf_f ff 1 ''op/s'' (fdiv (float64_of_int (Count t)) elapsedSeconds),
          Sprintf_v_ms (TopField.Time r),
          Sprintf_f ff 1 ''%''
            (fmul (fdiv (float64_of_int (TopField.Time r)) elapsedMillis) (Fin 100)),
          Sprintf_f ff 1 ''ms/op''
            (fdiv (float64_of_int (TopField.Time r)) (float64_of_int (Count r))),
          Sprintf_f ff 1 ''op/s'' (fdiv (float64_of_int (Count r)) elapsedSeconds),
          Sprintf_v_ms (TopField.Time w),
          Sprintf_f ff 1 ''%''
            (fmul (fdiv (float64_of_int (TopField.Time w)) elapsedMillis) (Fin 100)),
          Sprintf_f ff 1 ''ms/op''
            (fdiv (float64_of_int (TopField.Time w)) (float64_of_int (Count w))),
          Sprintf_f ff 1 ''op/s'' (fdiv (float64_of_int (Count w)) elapsedSeconds),
          ''''])"

definition TopDiff_header :: "string \<Rightarrow> string list" where
  "TopDiff_header stamp =
     [''                                              ns'', ''||TOTAL||'', ''total %'',
      ''total %/core'', ''time/op'', ''op/s'', ''||READ||'', ''read %'', ''time/op'', ''op/s'',
      ''||WRITE||'', ''write %'', ''time/op'', ''op/s'', stamp]"

definition TopDiff_Grid ::
  "(nat \<Rightarrow> real \<Rightarrow> string) \<Rightarrow> string \<Rightarrow> TopDiff \<Rightarrow> panic + string list list" where
  "TopDiff_Grid ff stamp td =
     (let lc = default_listCount (TopDiff.listCount td)
      in case TopDiff_totals td of
           Inl p \<Rightarrow> Inl p
         | Inr totals \<Rightarrow>
             (let elapsedMillis = float64_of_int (quo (TopDiff.elapsed td) 1000000);
                  elapsedSeconds = float64_of_int (quo (TopDiff.elapsed td) 1000000000)
              in Inr (TopDiff_header stamp
                      # Grid_rows (TopDiff_row ff td elapsedMillis elapsedSeconds) lc 0
                          (ranked totals))))"

subsection \<open>\<^verbatim>\<open>func (od OperationMetricsDiff) Grid() string\<close>\<close>

definition MemberInfo_zero :: OperationMetricsMemberInfo where
  "MemberInfo_zero =
     \<lparr> OperationMetricsMemberInfo.DocBytesRead = 0,
       OperationMetricsMemberInfo.DocUnitsRead = 0,
       OperationMetricsMemberInfo.IndexEntryBytesRead = 0,
       OperationMetricsMemberInfo.IndexEntryUnitsRead = 0,
       OperationMetricsMemberInfo.KeysSorted = 0,
       OperationMetricsMemberInfo.SorterSpills = 0,
       OperationMetricsMemberInfo.DocUnitsReturned = 0,
       OperationMetricsMemberInfo.CursorSeeks = 0 \<rparr>"

definition Entry_zero :: OperationMetricsEntry where
  "Entry_zero =
     \<lparr> DBName = [],
       OperationMetricsEntry.PrimaryMetrics = MemberInfo_zero,
       OperationMetricsEntry.SecondaryMetrics = MemberInfo_zero,
       OperationMetricsEntry.DocBytesWritten = 0,
       OperationMetricsEntry.DocUnitsWritten = 0,
       OperationMetricsEntry.IndexEntryBytesWritten = 0,
       OperationMetricsEntry.IndexEntryUnitsWritten = 0,
       OperationMetricsEntry.CpuNanos = 0 \<rparr>"

definition Delta_zero :: OperationMetricsEntryDelta where
  "Delta_zero = OperationMetrics_Diff_entry Entry_zero Entry_zero"

definition OperationMetricsDiff_sortable ::
  "OperationMetricsDiff \<Rightarrow> OperationMetrics \<Rightarrow> string \<times> OperationMetricsEntryDelta
   \<Rightarrow> sortableTotal" where
  "OperationMetricsDiff_sortable od cur p =
     (if sortTotal od then
        \<lparr> Name = fst p,
          sortableTotal.Total = float64_of_int (Delta_TotalDocUnits (snd p)),
          Current = Entry_TotalDocUnits (index Entry_zero (Entries cur) (fst p)) \<rparr>
      else
        \<lparr> Name = fst p,
          sortableTotal.Total = float64_of_int (OperationMetricsEntryDelta.CpuNanos (snd p)),
          Current = OperationMetricsEntry.CpuNanos (index Entry_zero (Entries cur) (fst p)) \<rparr>)"

definition OperationMetricsDiff_totals :: "OperationMetricsDiff \<Rightarrow> panic + sortableTotal list" where
  "OperationMetricsDiff_totals od =
     (if OperationMetricsDiff.Totals od = [] then Inr []
      else case currentOperation od of
             None \<Rightarrow> Inl NilPointerDereference
           | Some cur \<Rightarrow>
               Inr (map (OperationMetricsDiff_sortable od cur) (OperationMetricsDiff.Totals od)))"

definition OperationMetricsDiff_row ::
  "(nat \<Rightarrow> real \<Rightarrow> string) \<Rightarrow> OperationMetricsDiff \<Rightarrow> float64 \<Rightarrow> sortableTotal \<Rightarrow> string list" where
  "OperationMetricsDiff_row ff od elapsedSeconds st =
     (let diff = index Delta_zero (OperationMetricsDiff.Totals od) (Name st)
      in [Name st,
          '''',
          Sprintf_f ff 1 ''Units/s''
            (fdiv (float64_of_int (Delta_TotalDocUnits diff)) elapsedSeconds),
          Sprintf_f ff 1 ''RUnits/s''
            (fdiv (float64_of_int
                     (OperationMetricsMemberInfoDelta.DocUnitsRead
                        (OperationMetricsEntryDelta.PrimaryMetrics diff)
                      + OperationMetricsMemberInfoDelta.DocUnitsRead
                          (OperationMetricsEntryDelta.SecondaryMetrics diff)))
                  elapsedSeconds),
          Sprintf_f ff 1 ''WUnits/s''
            (fdiv (float64_of_int (OperationMetricsEntryDelta.DocUnitsWritten diff))
                  elapsedSeconds),
          ''''])"

definition OperationMetricsDiff_header :: "string \<Rightarrow> string list" where
  "OperationMetricsDiff_header stamp =
     [''                                              ns'', ''||TOTAL||'', ''total Units/s'',
      ''total RUnits/s'', ''total WUnits/s'', stamp]"

definition OperationMetricsDiff_Grid ::
  "(nat \<Rightarrow> real \<Rightarrow> string) \<Rightarrow> string \<Rightarrow> OperationMetricsDiff \<Rightarrow> panic + string list list" where
  "OperationMetricsDiff_Grid ff stamp od =
     (let lc = default_listCount (OperationMetricsDiff.listCount od)
      in case OperationMetricsDiff_totals od of
           Inl p \<Rightarrow> Inl p
         | Inr totals \<Rightarrow>
             (let elapsedSeconds =
                    float64_of_int (quo (OperationMetricsDiff.elapsed od) 1000000000)
              in Inr (OperationMetricsDiff_header stamp
                      # Grid_rows (OperationMetricsDiff_row ff od elapsedSeconds) lc 0
                          (ranked totals))))"

text \<open>\<^verbatim>\<open>func (od OperationMetricsDiff) JSON() string\<close>\<close>

definition OperationMetricsDiff_JSON :: "OperationMetricsDiff \<Rightarrow> string" where
  "OperationMetricsDiff_JSON od =
     ''{'' @ [CHR 0x22] @ ''unsupported'' @ [CHR 0x22] @ '': true}''"

subsection \<open>\<^verbatim>\<open>func (ssd ServerStatusDiff) Grid() string\<close>\<close>

definition ReadWriteLockTimes_zero :: ReadWriteLockTimes where
  "ReadWriteLockTimes_zero =
     \<lparr> ReadWriteLockTimes.Read = 0, ReadWriteLockTimes.Write = 0,
       ReadLower = 0, WriteLower = 0 \<rparr>"

definition LockStats_zero :: LockStats where
  "LockStats_zero =
     \<lparr> AcquireCount = None, TimeLockedMicros = ReadWriteLockTimes_zero,
       TimeAcquiringMicros = ReadWriteLockTimes_zero \<rparr>"

definition LockDelta_zero :: LockDelta where
  "LockDelta_zero = \<lparr> LockDelta.Read = 0, LockDelta.Write = 0 \<rparr>"

definition ServerStatusDiff_sortable ::
  "ServerStatus \<Rightarrow> string \<times> LockDelta \<Rightarrow> sortableTotal" where
  "ServerStatusDiff_sortable cur p =
     (let lockStats = index LockStats_zero (entries_of (ServerStatus.Locks cur)) (fst p);
          currentTotal = ReadLower (TimeLockedMicros lockStats)
                         + WriteLower (TimeLockedMicros lockStats)
      in \<lparr> Name = fst p,
           sortableTotal.Total = float64_of_int (LockDelta.Read (snd p) + LockDelta.Write (snd p)),
           Current = currentTotal \<rparr>)"

definition ServerStatusDiff_totals :: "ServerStatusDiff \<Rightarrow> panic + sortableTotal list" where
  "ServerStatusDiff_totals ssd =
     (if ServerStatusDiff.Totals ssd = [] then Inr []
      else case currentServerStatus ssd of
             None \<Rightarrow> Inl NilPointerDereference
           | Some cur \<Rightarrow> Inr (map (ServerStatusDiff_sortable cur) (ServerStatusDiff.Totals ssd)))"

definition ServerStatusDiff_row :: "ServerStatusDiff \<Rightarrow> sortableTotal \<Rightarrow> string list" where
  "ServerStatusDiff_row ssd st =
     (let diff = index LockDelta_zero (ServerStatusDiff.Totals ssd) (Name st)
      in [Name st,
          Sprintf_v_ms (LockDelta.Read diff + LockDelta.Write diff),
          Sprintf_v_ms (LockDelta.Read diff),
          Sprintf_v_ms (LockDelta.Write diff),
          ''''])"

definition ServerStatusDiff_header :: "string \<Rightarrow> string list" where
  "ServerStatusDiff_header stamp = [''db'', ''total'', ''read'', ''write'', stamp]"

definition ServerStatusDiff_Grid :: "string \<Rightarrow> ServerStatusDiff \<Rightarrow> panic + string list list" where
  "ServerStatusDiff_Grid stamp ssd =
     (let lc = default_listCount (ServerStatusDiff.listCount ssd)
      in case ServerStatusDiff_totals ssd of
           Inl p \<Rightarrow> Inl p
         | Inr totals \<Rightarrow>
             Inr (ServerStatusDiff_header stamp
                  # Grid_rows (ServerStatusDiff_row ssd) lc 0 (ranked totals)))"

section \<open>The sampling steps\<close>

text \<open>
  The three methods \<^verbatim>\<open>runTopDiff\<close>, \<^verbatim>\<open>runServerStatusDiff\<close> and
  \<^verbatim>\<open>runOperationMetricsDiff\<close> of \<^verbatim>\<open>MongoTop\<close> ask the server for a sample, decode
  it, diff it against the stored previous sample and store it.  The state is the record of
  the receiver's fields that the methods read or write; each method returns its pair of
  results (\<open>Inl err\<close> for \<^verbatim>\<open>nil, err\<close>, \<open>Inr outDiff\<close> for \<^verbatim>\<open>outDiff, nil\<close>, a nil
  \<^verbatim>\<open>outDiff\<close> being \<open>None\<close>) and the state it leaves.  The session provider and the
  BSON library are collaborators: what they answer is an argument, one constructor per
  outcome the method tells apart.  The arguments \<open>now\<close> and \<open>later\<close> are the readings of the
  clock at the start of the method and inside \<^verbatim>\<open>Diff\<close>.
\<close>

type_synonym error = string

record Output =
  Locks :: bool
  RowCount :: go_int
  ListCount :: go_int
  SortLatency :: bool
  Json :: bool

record MongoTop =
  NumCores :: go_int
  OutputOptions :: Output
  previousOperationMetrics :: "OperationMetrics option"
  previousServerStatus :: "ServerStatus option"
  previousTop :: "Top option"

datatype FormattableDiff =
    ATopDiff TopDiff
  | AServerStatusDiff ServerStatusDiff
  | AnOperationMetricsDiff OperationMetricsDiff

subsection \<open>\<^verbatim>\<open>func (mt *MongoTop) runTopDiff() (outDiff FormattableDiff, err error)\<close>\<close>

text \<open>
  The outcomes of the command \<^verbatim>\<open>top\<close> and of the decoding of its reply: \<^verbatim>\<open>RunString\<close>
  failed; the reply has no field \<^verbatim>\<open>totals\<close>; \<^verbatim>\<open>MarshalBSON\<close> failed;
  \<^verbatim>\<open>bson.Unmarshal\<close> failed; or the map of namespaces was decoded.
\<close>

datatype top_reply =
    RunStringFailed error
  | LookupFailed error
  | MarshalFailed error
  | UnmarshalFailed error
  | Decoded "(string, NSTopInfo) gomap"

definition runTopDiff ::
  "Time \<Rightarrow> Time \<Rightarrow> top_reply \<Rightarrow> MongoTop \<Rightarrow> (error + FormattableDiff option) \<times> MongoTop" where
  "runTopDiff now later reply mt =
     (case reply of
        RunStringFailed err \<Rightarrow> (Inl err, mt\<lparr> previousTop := None \<rparr>)
      | LookupFailed err \<Rightarrow> (Inl err, mt)
      | MarshalFailed err \<Rightarrow> (Inl err, mt)
      | UnmarshalFailed err \<Rightarrow> (Inl err, mt)
      | Decoded topinfo \<Rightarrow>
          (let currentTop = \<lparr> Top.numCores = NumCores mt, Top.time = now, Top.Totals = topinfo \<rparr>;
               outDiff =
                 (case previousTop mt of
                    None \<Rightarrow> None
                  | Some previous \<Rightarrow>
                      Some (ATopDiff (Top_Diff later currentTop previous
                                        (ListCount (OutputOptions mt))
                                        (SortLatency (OutputOptions mt)))))
           in (Inr outDiff, mt\<lparr> previousTop := Some currentTop \<rparr>)))"

subsection \<open>\<^verbatim>\<open>func (mt *MongoTop) runServerStatusDiff() (outDiff FormattableDiff, err error)\<close>\<close>

text \<open>
  \<^verbatim>\<open>RunString\<close> decodes the reply of \<^verbatim>\<open>serverStatus\<close> into a \<^verbatim>\<open>ServerStatus\<close>, of
  which the field \<^verbatim>\<open>Locks\<close> is the only one a reply can set.
\<close>

datatype serverStatus_reply =
    ServerStatusFailed error
  | ServerStatusDecoded "(string, LockStats) gomap option"

text \<open>
  The loop \<^verbatim>\<open>for _, ns := range currentServerStatus.Locks\<close> with its early return.
\<close>

fun check_AcquireCount :: "(string \<times> LockStats) list \<Rightarrow> error option" where
  "check_AcquireCount [] = None"
| "check_AcquireCount (ns # rest) =
     (if AcquireCount (snd ns) \<noteq> None
      then Some ''server does not support reporting lock information''
      else check_AcquireCount rest)"

definition runServerStatusDiff ::
  "Time \<Rightarrow> Time \<Rightarrow> serverStatus_reply \<Rightarrow> MongoTop
   \<Rightarrow> (error + FormattableDiff option) \<times> MongoTop" where
  "runServerStatusDiff now later reply mt =
     (case reply of
        ServerStatusFailed err \<Rightarrow> (Inl err, mt\<lparr> previousServerStatus := None \<rparr>)
      | ServerStatusDecoded locks \<Rightarrow>
          (if locks = None
           then (Inl ''server does not support reporting lock information'', mt)
           else case check_AcquireCount (entries_of locks) of
             Some err \<Rightarrow> (Inl err, mt)
           | None \<Rightarrow>
               (let currentServerStatus =
                      \<lparr> ServerStatus.time = now, ServerStatus.Locks = locks \<rparr>;
                    outDiff =
                      (case previousServerStatus mt of
                         None \<Rightarrow> None
                       | Some previous \<Rightarrow>
                           Some (AServerStatusDiff
                                   (ServerStatus_Diff later currentServerStatus previous
                                      (ListCount (OutputOptions mt)))))
                in (Inr outDiff, mt\<lparr> previousServerStatus := Some currentServerStatus \<rparr>))))"

subsection \<open>\<^verbatim>\<open>func (mt *MongoTop) runOperationMetricsDiff() (outDiff FormattableDiff, err error)\<close>\<close>

text \<open>
  \<^verbatim>\<open>Aggregate\<close> fails or returns a cursor.  A cursor is the list of documents that
  \<^verbatim>\<open>cursor.Next\<close> delivers, each with the outcome of its \<^verbatim>\<open>cursor.Decode\<close>, and
  the value of \<^verbatim>\<open>cursor.Err()\<close> once \<^verbatim>\<open>Next\<close> has returned false.
\<close>

datatype cursor_step = DecodeFailed error | DecodedEntry OperationMetricsEntry

datatype aggregate_reply =
    AggregateFailed error
  | Cursor "cursor_step list" "error option"

fun read_cursor ::
  "cursor_step list \<Rightarrow> (string, OperationMetricsEntry) gomap
   \<Rightarrow> error + (string, OperationMetricsEntry) gomap" where
  "read_cursor [] entries = Inr entries"
| "read_cursor (DecodeFailed err # rest) entries =
     Inl (''failure decoding from cursor, err: '' @ err)"
| "read_cursor (DecodedEntry entry # rest) entries =
     read_cursor rest (AList.update (DBName entry) entry entries)"

definition runOperationMetricsDiff ::
  "Time \<Rightarrow> Time \<Rightarrow> aggregate_reply \<Rightarrow> MongoTop
   \<Rightarrow> (error + FormattableDiff option) \<times> MongoTop" where
  "runOperationMetricsDiff now later reply mt =
     (case reply of
        AggregateFailed err \<Rightarrow> (Inl err, mt\<lparr> previousOperationMetrics := None \<rparr>)
      | Cursor steps cursorErr \<Rightarrow>
          (case read_cursor steps [] of
             Inl err \<Rightarrow> (Inl err, mt)
           | Inr entries \<Rightarrow>
               (case cursorErr of
                  Some err \<Rightarrow> (Inl (''failure reading from cursor, err: '' @ err), mt)
                | None \<Rightarrow>
                    (let currentOperationMetrics =
                           \<lparr> OperationMetrics.numCores = NumCores mt,
                             OperationMetrics.time = now,
                             Entries = entries \<rparr>;
                         outDiff =
                           (case previousOperationMetrics mt of
                              None \<Rightarrow> None
                            | Some previous \<Rightarrow>
                                Some (AnOperationMetricsDiff
                                        (OperationMetrics_Diff later currentOperationMetrics
                                           previous (ListCount (OutputOptions mt))
                                           (SortLatency (OutputOptions mt)))))
                     in (Inr outDiff,
                         mt\<lparr> previousOperationMetrics := Some currentOperationMetrics \<rparr>)))))"

section \<open>Notions of the specification\<close>

text \<open>
  A comparison is a (strict) total order on a set of entries when it is irreflexive,
  transitive and decides every pair of different entries.
\<close>

definition strict_total_order_on :: "'a set \<Rightarrow> ('a \<Rightarrow> 'a \<Rightarrow> bool) \<Rightarrow> bool" where
  "strict_total_order_on A lt =
     ((\<forall>x\<in>A. \<not> lt x x)
      \<and> (\<forall>x\<in>A. \<forall>y\<in>A. \<forall>z\<in>A. lt x y \<and> lt y z \<longrightarrow> lt x z)
      \<and> (\<forall>x\<in>A. \<forall>y\<in>A. x \<noteq> y \<longrightarrow> lt x y \<or> lt y x))"

text \<open>
  A cell is a sentinel when it is one of the three special values as the formatter
  prints them, followed by the unit of its column.
\<close>

definition sentinel_cell :: "string \<Rightarrow> string \<Rightarrow> bool" where
  "sentinel_cell suffix c =
     (c = ''NaN'' @ suffix \<or> c = ''+Inf'' @ suffix \<or> c = ''-Inf'' @ suffix)"

section \<open>Sample data\<close>

text \<open>
  Two namespace-top samples of one namespace taken two seconds apart (the total counters
  are those of the specification's Scenario A), and a constructor for lock statistics
  with the four \<^verbatim>\<open>timeLockedMicros\<close> counters \<^verbatim>\<open>R\<close>, \<^verbatim>\<open>W\<close>, \<^verbatim>\<open>r\<close>, \<^verbatim>\<open>w\<close>.
\<close>

definition scenarioA_previous :: Top where
  "scenarioA_previous =
     \<lparr> Top.numCores = 4, Top.time = 0,
       Top.Totals = [(''db.coll'',
         \<lparr> NSTopInfo.Total = \<lparr> TopField.Time = 1000, Count = 10 \<rparr>,
           NSTopInfo.Read = \<lparr> TopField.Time = 2500, Count = 7 \<rparr>,
           NSTopInfo.Write = \<lparr> TopField.Time = 0, Count = 0 \<rparr> \<rparr>)] \<rparr>"

definition scenarioA_current :: Top where
  "scenarioA_current =
     \<lparr> Top.numCores = 4, Top.time = 2000000000,
       Top.Totals = [(''db.coll'',
         \<lparr> NSTopInfo.Total = \<lparr> TopField.Time = 3000, Count = 15 \<rparr>,
           NSTopInfo.Read = \<lparr> TopField.Time = 1000, Count = 3 \<rparr>,
           NSTopInfo.Write = \<lparr> TopField.Time = 0, Count = 0 \<rparr> \<rparr>)] \<rparr>"

definition lock_times :: "int64 \<Rightarrow> int64 \<Rightarrow> int64 \<Rightarrow> int64 \<Rightarrow> LockStats" where
  "lock_times R W r w =
     \<lparr> AcquireCount = None,
       TimeLockedMicros = \<lparr> ReadWriteLockTimes.Read = R, ReadWriteLockTimes.Write = W,
                             ReadLower = r, WriteLower = w \<rparr>,
       TimeAcquiringMicros = \<lparr> ReadWriteLockTimes.Read = 0, ReadWriteLockTimes.Write = 0,
                             ReadLower = 0, WriteLower = 0 \<rparr> \<rparr>"

text \<open>
  A tool state after one successful namespace-top sample: the previous sample is stored.
\<close>

definition mt_sampled :: MongoTop where
  "mt_sampled =
     \<lparr> NumCores = 4,
       OutputOptions = \<lparr> Output.Locks = False, RowCount = 0, ListCount = 0,
                         SortLatency = False, Json = False \<rparr>,
       previousOperationMetrics = None,
       previousServerStatus = None,
       previousTop = Some scenarioA_previous \<rparr>"

text \<open>
  Diffs for the rendering: a namespace-top diff with an idle and a busy namespace, an
  operation-metrics diff with two databases and a lock-usage diff over a given map, each
  with a current sample attached.
\<close>

definition sample_Top :: Top where
  "sample_Top =
     \<lparr> Top.numCores = 4, Top.time = 2000000000,
       Top.Totals =
         [(''db.idle'', \<lparr> NSTopInfo.Total = \<lparr> TopField.Time = 700, Count = 70 \<rparr>,
                        NSTopInfo.Read = \<lparr> TopField.Time = 700, Count = 70 \<rparr>,
                        NSTopInfo.Write = \<lparr> TopField.Time = 0, Count = 0 \<rparr> \<rparr>),
          (''db.busy'', \<lparr> NSTopInfo.Total = \<lparr> TopField.Time = 9000, Count = 12 \<rparr>,
                        NSTopInfo.Read = \<lparr> TopField.Time = 9000, Count = 12 \<rparr>,
                        NSTopInfo.Write = \<lparr> TopField.Time = 0, Count = 0 \<rparr> \<rparr>)] \<rparr>"

definition sample_TopDiff :: "go_int \<Rightarrow> bool \<Rightarrow> Duration \<Rightarrow> TopDiff" where
  "sample_TopDiff lc sl e =
     \<lparr> TopDiff.numCores = 4, TopDiff.elapsed = e, currentTop = Some sample_Top,
       TopDiff.listCount = lc, sortLatency = sl,
       TopDiff.Totals =
         [(''db.idle'', NSTopInfo_zero),
          (''db.busy'', \<lparr> NSTopInfo.Total = \<lparr> TopField.Time = 5, Count = 1 \<rparr>,
                        NSTopInfo.Read = \<lparr> TopField.Time = 5, Count = 1 \<rparr>,
                        NSTopInfo.Write = \<lparr> TopField.Time = 0, Count = 0 \<rparr> \<rparr>)],
       TopDiff.Time = 0 \<rparr>"

definition sample_OperationMetricsDiff :: "go_int \<Rightarrow> Duration \<Rightarrow> OperationMetricsDiff" where
  "sample_OperationMetricsDiff lc e =
     \<lparr> OperationMetricsDiff.numCores = 4, OperationMetricsDiff.elapsed = e,
       currentOperation =
         Some \<lparr> OperationMetrics.numCores = 4, OperationMetrics.time = 0, Entries = [] \<rparr>,
       OperationMetricsDiff.listCount = lc, sortTotal = True,
       OperationMetricsDiff.Totals =
         [(''x'', Delta_zero),
          (''y'', Delta_zero\<lparr> OperationMetricsEntryDelta.DocUnitsWritten := 60 \<rparr>)],
       OperationMetricsDiff.Time = 0 \<rparr>"

definition sample_ServerStatusDiff ::
  "go_int \<Rightarrow> (string, LockDelta) gomap \<Rightarrow> ServerStatusDiff" where
  "sample_ServerStatusDiff lc totals =
     \<lparr> currentServerStatus = Some \<lparr> ServerStatus.time = 0, ServerStatus.Locks = Some [] \<rparr>,
       ServerStatusDiff.listCount = lc,
       ServerStatusDiff.Totals = totals,
       ServerStatusDiff.Time = 0 \<rparr>"

definition sample_LockDeltas :: "(string, LockDelta) gomap" where
  "sample_LockDeltas =
     [(''a'', \<lparr> LockDelta.Read = 1, LockDelta.Write = 2 \<rparr>),
      (''b'', \<lparr> LockDelta.Read = 5, LockDelta.Write = 0 \<rparr>)]"

text \<open>The composite literal \<^verbatim>\<open>sortableTotal{name, total, current}\<close>.\<close>

definition sortable :: "string \<Rightarrow> float64 \<Rightarrow> int64 \<Rightarrow> sortableTotal" where
  "sortable n t c = \<lparr> Name = n, sortableTotal.Total = t, Current = c \<rparr>"

section \<open>Properties\<close>

subsection \<open>The diff is an inner join on the entity key\<close>

lemma keys_Nil: "keys [] = {}"
  by (simp add: keys_def)

lemma keys_update: "keys (AList.update k v m) = insert k (keys m)"
  unfolding keys_def by (induction m) auto

lemma keys_map_of: "(k \<in> keys m) = (map_of m k \<noteq> None)"
  unfolding keys_def by (induction m) auto

lemma keys_Top_Diff_loop:
  "keys (fold (Top_Diff_step cur) prev acc) = keys acc \<union> (keys cur \<inter> keys prev)"
proof (induction prev arbitrary: acc)
  case Nil
  show ?case by (simp add: keys_def)
next
  case (Cons p prev)
  have "keys (Top_Diff_step cur p acc) = keys acc \<union> (keys cur \<inter> {fst p})"
    by (cases "map_of cur (fst p)")
       (auto simp: Top_Diff_step_def keys_update keys_map_of)
  with Cons.IH [of "Top_Diff_step cur p acc"] show ?case
    by (auto simp: keys_def)
qed

lemma keys_ServerStatus_Diff_loop:
  "keys (fold (ServerStatus_Diff_step cur) prev acc) = keys acc \<union> (keys cur \<inter> keys prev)"
proof (induction prev arbitrary: acc)
  case Nil
  show ?case by (simp add: keys_def)
next
  case (Cons p prev)
  have "keys (ServerStatus_Diff_step cur p acc) = keys acc \<union> (keys cur \<inter> {fst p})"
    by (cases "map_of cur (fst p)")
       (auto simp: ServerStatus_Diff_step_def keys_update keys_map_of)
  with Cons.IH [of "ServerStatus_Diff_step cur p acc"] show ?case
    by (auto simp: keys_def)
qed

lemma keys_OperationMetrics_Diff_loop:
  "keys (fold (OperationMetrics_Diff_step cur) prev acc) = keys acc \<union> (keys cur \<inter> keys prev)"
proof (induction prev arbitrary: acc)
  case Nil
  show ?case by (simp add: keys_def)
next
  case (Cons p prev)
  have "keys (OperationMetrics_Diff_step cur p acc) = keys acc \<union> (keys cur \<inter> {fst p})"
    by (cases "map_of cur (fst p)")
       (auto simp: OperationMetrics_Diff_step_def keys_update keys_map_of)
  with Cons.IH [of "OperationMetrics_Diff_step cur p acc"] show ?case
    by (auto simp: keys_def)
qed

text \<open>
  Claim C1.  For each of the three shapes, the keys of the diff's \<^verbatim>\<open>Totals\<close> map are
  exactly the keys found in both the current and the previous sample: a key of only one
  sample is not in the diff (it is dropped, not read as zero).
\<close>

theorem C1_diff_keys_inner_join:
  "keys (TopDiff.Totals (Top_Diff now cur previous lc sl))
     = keys (Top.Totals cur) \<inter> keys (Top.Totals previous)
   \<and> keys (ServerStatusDiff.Totals (ServerStatus_Diff now ss sprev lc))
     = keys (entries_of (ServerStatus.Locks ss)) \<inter> keys (entries_of (ServerStatus.Locks sprev))
   \<and> keys (OperationMetricsDiff.Totals (OperationMetrics_Diff now metrics mprev lc st))
     = keys (Entries metrics) \<inter> keys (Entries mprev)"
  by (simp add: Top_Diff_def ServerStatus_Diff_def OperationMetrics_Diff_def
      keys_Top_Diff_loop keys_ServerStatus_Diff_loop keys_OperationMetrics_Diff_loop keys_Nil)

subsection \<open>The deltas of an entry\<close>

text \<open>
  What the range loop of a \<^verbatim>\<open>Diff\<close> leaves under a key, for any loop body of the
  shape the three methods share.  A Go map holds a key once, which for the list of pairs
  is \<open>distinct (map fst prev)\<close>.
\<close>

lemma join_loop_lookup:
  assumes step: "\<And>p acc. step p acc =
      (case map_of cur (fst p) of Some c \<Rightarrow> AList.update (fst p) (f c (snd p)) acc | None \<Rightarrow> acc)"
    and dist: "distinct (map fst prev)"
  shows "map_of (fold step prev acc) ns =
     (case map_of prev ns of
        None \<Rightarrow> map_of acc ns
      | Some p \<Rightarrow> (case map_of cur ns of None \<Rightarrow> map_of acc ns | Some c \<Rightarrow> Some (f c p)))"
  using dist
proof (induction prev arbitrary: acc)
  case Nil
  show ?case by simp
next
  case (Cons q prev)
  obtain k v where q: "q = (k, v)" by (cases q)
  from Cons.prems q have notin: "map_of prev k = None" and d: "distinct (map fst prev)"
    by (auto simp: map_of_eq_None_iff)
  show ?case
    using Cons.IH [OF d, of "step q acc"] notin
    by (auto simp: q step update_conv' split: option.splits)
qed

lemma sdiv_1000_bounds:
  fixes k :: int
  assumes "- (2 ^ 63) \<le> k" "k < 2 ^ 63"
  shows "- (2 ^ 63) \<le> k sdiv 1000 \<and> k sdiv 1000 < 2 ^ 63"
proof (cases "0 \<le> k")
  case True
  then have "k sdiv 1000 = k div 1000"
    by (simp add: signed_divide_int_def sgn_if)
  moreover have "0 \<le> k div 1000" "k div 1000 \<le> k" using True by simp_all
  ultimately show ?thesis using assms by linarith
next
  case False
  then have "k sdiv 1000 = - ((- k) div 1000)"
    by (simp add: signed_divide_int_def sgn_if)
  moreover have "0 \<le> (- k) div 1000" "(- k) div 1000 \<le> - k" using False by simp_all
  ultimately show ?thesis using assms by linarith
qed

lemma sint_quo_1000: "sint (quo a 1000) = sint a sdiv 1000"
proof -
  have b: "- (2 ^ 63) \<le> sint a" "sint a < 2 ^ 63"
    using sint_ge [of a] sint_lt [of a] by simp_all
  have "sint (quo a 1000) = signed_take_bit 63 (sint a sdiv 1000)"
    by (simp add: quo_def sint_sbintrunc')
  also have "\<dots> = sint a sdiv 1000"
    using sdiv_1000_bounds [OF b] by (simp add: signed_take_bit_int_eq_self)
  finally show ?thesis .
qed

lemma sint_sub64: "sint (a - b :: 64 word) = signed_take_bit 63 (sint a - sint b)"
  by (simp add: sint_word_ariths)

lemma sint_lock_sum:
  "sint (a + b - (c + d) :: 64 word) = signed_take_bit 63 (sint a + sint b - (sint c + sint d))"
proof -
  have "a + b - (c + d) = word_of_int (sint a + sint b - (sint c + sint d))"
    by simp
  then show ?thesis
    by (simp only: sint_sbintrunc') simp
qed

lemma Top_Diff_lookup:
  assumes "distinct (map fst (Top.Totals previous))"
    and "map_of (Top.Totals cur) ns = Some c" and "map_of (Top.Totals previous) ns = Some p"
  shows "map_of (TopDiff.Totals (Top_Diff now cur previous n sl)) ns = Some (Top_Diff_entry c p)"
  using assms
  by (simp add: Top_Diff_def
      join_loop_lookup [where step = "Top_Diff_step (Top.Totals cur)" and f = Top_Diff_entry
        and cur = "Top.Totals cur", OF Top_Diff_step_def])

lemma ServerStatus_Diff_lookup:
  assumes "distinct (map fst (entries_of (ServerStatus.Locks sprev)))"
    and "map_of (entries_of (ServerStatus.Locks ss)) db = Some c"
    and "map_of (entries_of (ServerStatus.Locks sprev)) db = Some p"
  shows "map_of (ServerStatusDiff.Totals (ServerStatus_Diff now ss sprev n)) db
           = Some (ServerStatus_Diff_entry c p)"
  using assms
  by (simp add: ServerStatus_Diff_def
      join_loop_lookup [where step = "ServerStatus_Diff_step (entries_of (ServerStatus.Locks ss))"
        and f = ServerStatus_Diff_entry and cur = "entries_of (ServerStatus.Locks ss)",
        OF ServerStatus_Diff_step_def])

text \<open>
  Claim C2.  For a key of both samples the diff holds an entry.  In a namespace-top diff
  each of its \<^verbatim>\<open>Total\<close>, \<^verbatim>\<open>Read\<close> and \<^verbatim>\<open>Write\<close> fields has \<^verbatim>\<open>Time\<close> equal to
  the difference of the two times divided by 1000 and \<^verbatim>\<open>Count\<close> equal to the
  difference of the two counts; in a lock-usage diff \<^verbatim>\<open>Read\<close> (\<^verbatim>\<open>Write\<close>) is the
  difference of the summed upper- and lower-case \<^verbatim>\<open>timeLockedMicros\<close> counters divided
  by 1000.  The differences are Go's: signed, wrapped to 64 bits (\<open>signed_take_bit 63\<close>),
  and the quotient truncates towards zero (\<open>sdiv\<close>); nothing is clamped at zero.
\<close>

theorem C2_diff_deltas:
  "(distinct (map fst (Top.Totals previous))
      \<and> map_of (Top.Totals cur) ns = Some c \<and> map_of (Top.Totals previous) ns = Some p
    \<longrightarrow> (\<exists>d. map_of (TopDiff.Totals (Top_Diff now cur previous n sl)) ns = Some d
          \<and> sint (TopField.Time (NSTopInfo.Total d))
              = signed_take_bit 63 (sint (TopField.Time (NSTopInfo.Total c)) - sint (TopField.Time (NSTopInfo.Total p)))
                  sdiv 1000
          \<and> sint (Count (NSTopInfo.Total d))
              = signed_take_bit 63 (sint (Count (NSTopInfo.Total c)) - sint (Count (NSTopInfo.Total p)))
          \<and> sint (TopField.Time (NSTopInfo.Read d))
              = signed_take_bit 63 (sint (TopField.Time (NSTopInfo.Read c))
                  - sint (TopField.Time (NSTopInfo.Read p))) sdiv 1000
          \<and> sint (Count (NSTopInfo.Read d))
              = signed_take_bit 63 (sint (Count (NSTopInfo.Read c)) - sint (Count (NSTopInfo.Read p)))
          \<and> sint (TopField.Time (NSTopInfo.Write d))
              = signed_take_bit 63 (sint (TopField.Time (NSTopInfo.Write c))
                  - sint (TopField.Time (NSTopInfo.Write p))) sdiv 1000
          \<and> sint (Count (NSTopInfo.Write d))
              = signed_take_bit 63 (sint (Count (NSTopInfo.Write c))
                  - sint (Count (NSTopInfo.Write p)))))
   \<and> (distinct (map fst (entries_of (ServerStatus.Locks sprev)))
      \<and> map_of (entries_of (ServerStatus.Locks ss)) db = Some lc
      \<and> map_of (entries_of (ServerStatus.Locks sprev)) db = Some lp
    \<longrightarrow> (\<exists>l. map_of (ServerStatusDiff.Totals (ServerStatus_Diff now ss sprev n)) db = Some l
          \<and> sint (LockDelta.Read l)
              = signed_take_bit 63
                  (sint (ReadWriteLockTimes.Read (TimeLockedMicros lc))
                     + sint (ReadLower (TimeLockedMicros lc))
                   - (sint (ReadWriteLockTimes.Read (TimeLockedMicros lp))
                     + sint (ReadLower (TimeLockedMicros lp)))) sdiv 1000
          \<and> sint (LockDelta.Write l)
              = signed_take_bit 63
                  (sint (ReadWriteLockTimes.Write (TimeLockedMicros lc))
                     + sint (WriteLower (TimeLockedMicros lc))
                   - (sint (ReadWriteLockTimes.Write (TimeLockedMicros lp))
                     + sint (WriteLower (TimeLockedMicros lp)))) sdiv 1000))"
proof (intro conjI impI)
  assume "distinct (map fst (Top.Totals previous))
      \<and> map_of (Top.Totals cur) ns = Some c \<and> map_of (Top.Totals previous) ns = Some p"
  then have "map_of (TopDiff.Totals (Top_Diff now cur previous n sl)) ns
      = Some (Top_Diff_entry c p)"
    by (simp add: Top_Diff_lookup)
  then show "\<exists>d. map_of (TopDiff.Totals (Top_Diff now cur previous n sl)) ns = Some d
          \<and> sint (TopField.Time (NSTopInfo.Total d))
              = signed_take_bit 63 (sint (TopField.Time (NSTopInfo.Total c)) - sint (TopField.Time (NSTopInfo.Total p)))
                  sdiv 1000
          \<and> sint (Count (NSTopInfo.Total d))
              = signed_take_bit 63 (sint (Count (NSTopInfo.Total c)) - sint (Count (NSTopInfo.Total p)))
          \<and> sint (TopField.Time (NSTopInfo.Read d))
              = signed_take_bit 63 (sint (TopField.Time (NSTopInfo.Read c))
                  - sint (TopField.Time (NSTopInfo.Read p))) sdiv 1000
          \<and> sint (Count (NSTopInfo.Read d))
              = signed_take_bit 63 (sint (Count (NSTopInfo.Read c)) - sint (Count (NSTopInfo.Read p)))
          \<and> sint (TopField.Time (NSTopInfo.Write d))
              = signed_take_bit 63 (sint (TopField.Time (NSTopInfo.Write c))
                  - sint (TopField.Time (NSTopInfo.Write p))) sdiv 1000
          \<and> sint (Count (NSTopInfo.Write d))
              = signed_take_bit 63 (sint (Count (NSTopInfo.Write c))
                  - sint (Count (NSTopInfo.Write p)))"
    by (simp add: Top_Diff_entry_def sint_quo_1000 sint_sub64)
next
  assume "distinct (map fst (entries_of (ServerStatus.Locks sprev)))
      \<and> map_of (entries_of (ServerStatus.Locks ss)) db = Some lc
      \<and> map_of (entries_of (ServerStatus.Locks sprev)) db = Some lp"
  then have "map_of (ServerStatusDiff.Totals (ServerStatus_Diff now ss sprev n)) db
      = Some (ServerStatus_Diff_entry lc lp)"
    by (simp add: ServerStatus_Diff_lookup)
  then show "\<exists>l. map_of (ServerStatusDiff.Totals (ServerStatus_Diff now ss sprev n)) db = Some l
          \<and> sint (LockDelta.Read l)
              = signed_take_bit 63
                  (sint (ReadWriteLockTimes.Read (TimeLockedMicros lc))
                     + sint (ReadLower (TimeLockedMicros lc))
                   - (sint (ReadWriteLockTimes.Read (TimeLockedMicros lp))
                     + sint (ReadLower (TimeLockedMicros lp)))) sdiv 1000
          \<and> sint (LockDelta.Write l)
              = signed_take_bit 63
                  (sint (ReadWriteLockTimes.Write (TimeLockedMicros lc))
                     + sint (WriteLower (TimeLockedMicros lc))
                   - (sint (ReadWriteLockTimes.Write (TimeLockedMicros lp))
                     + sint (WriteLower (TimeLockedMicros lp)))) sdiv 1000"
    by (simp add: ServerStatus_Diff_entry_def Let_def sint_quo_1000 sint_lock_sum)
qed


text \<open>
  The theorem at the sample data: a time delta of \<open>-1500\<close> microseconds is \<open>-1\<close>
  millisecond, a count delta is \<open>-4\<close>, a lock delta of \<open>-3500\<close> is \<open>-3\<close>.
\<close>

theorem C2_diff_deltas_witness:
  "(\<exists>d. map_of (TopDiff.Totals (Top_Diff 0 scenarioA_current scenarioA_previous 0 False))
           ''db.coll'' = Some d
        \<and> sint (TopField.Time (NSTopInfo.Total d)) = 2 \<and> sint (Count (NSTopInfo.Total d)) = 5
        \<and> sint (TopField.Time (NSTopInfo.Read d)) = - 1 \<and> sint (Count (NSTopInfo.Read d)) = - 4
        \<and> sint (TopField.Time (NSTopInfo.Write d)) = 0 \<and> sint (Count (NSTopInfo.Write d)) = 0)
   \<and> (\<exists>l. map_of (ServerStatusDiff.Totals
            (ServerStatus_Diff 0
               \<lparr> ServerStatus.time = 1, ServerStatus.Locks = Some [(''admin'', lock_times 100 7000 900 0)] \<rparr>
               \<lparr> ServerStatus.time = 0, ServerStatus.Locks = Some [(''admin'', lock_times 0 2000 4500 500)] \<rparr>
               0)) ''admin'' = Some l
        \<and> sint (LockDelta.Read l) = - 3 \<and> sint (LockDelta.Write l) = 4)"
  using C2_diff_deltas [of scenarioA_previous scenarioA_current "''db.coll''"
      "\<lparr> NSTopInfo.Total = \<lparr> TopField.Time = 3000, Count = 15 \<rparr>,
         NSTopInfo.Read = \<lparr> TopField.Time = 1000, Count = 3 \<rparr>,
         NSTopInfo.Write = \<lparr> TopField.Time = 0, Count = 0 \<rparr> \<rparr>"
      "\<lparr> NSTopInfo.Total = \<lparr> TopField.Time = 1000, Count = 10 \<rparr>,
         NSTopInfo.Read = \<lparr> TopField.Time = 2500, Count = 7 \<rparr>,
         NSTopInfo.Write = \<lparr> TopField.Time = 0, Count = 0 \<rparr> \<rparr>"
      0 0 False
      "\<lparr> ServerStatus.time = 0, ServerStatus.Locks = Some [(''admin'', lock_times 0 2000 4500 500)] \<rparr>"
      "\<lparr> ServerStatus.time = 1, ServerStatus.Locks = Some [(''admin'', lock_times 100 7000 900 0)] \<rparr>"
      "''admin''" "lock_times 100 7000 900 0" "lock_times 0 2000 4500 500"]
  by (simp add: scenarioA_previous_def scenarioA_current_def lock_times_def entries_of_def
      signed_divide_int_def)

subsection \<open>The sampling steps and the stored previous sample\<close>

text \<open>
  Which failures of a sampling step clear the stored previous sample: the failure of the
  command does, the failures of decoding return early and leave the state as it was.
\<close>

lemma run_failures_state:
  "snd (runTopDiff now later (RunStringFailed e) mt) = mt\<lparr> previousTop := None \<rparr>
   \<and> snd (runTopDiff now later (LookupFailed e) mt) = mt
   \<and> snd (runTopDiff now later (MarshalFailed e) mt) = mt
   \<and> snd (runTopDiff now later (UnmarshalFailed e) mt) = mt
   \<and> snd (runOperationMetricsDiff now later (AggregateFailed e) mt)
        = mt\<lparr> previousOperationMetrics := None \<rparr>
   \<and> snd (runOperationMetricsDiff now later (Cursor (DecodeFailed e # rest) ce) mt) = mt
   \<and> snd (runOperationMetricsDiff now later (Cursor [] (Some e)) mt) = mt"
  by (simp add: runTopDiff_def runOperationMetricsDiff_def)

text \<open>
  Claim C5.  The claim is that every failed sample attempt after a success, a decode
  failure included, resets the stored previous sample, so that the next successful
  sample yields no diff.  The code does so for a failed command only.  Evaluated at a
  state that holds a previous sample: a reply without the field \<^verbatim>\<open>totals\<close> returns
  the error and leaves the state unchanged, the next successful sample is then diffed
  against the sample from before the failure, and a cursor document that fails to decode
  leaves the previous operation metrics in place.
\<close>

theorem C5_decode_failure_keeps_previous:
  "previousTop mt_sampled = Some scenarioA_previous
   \<and> runTopDiff 1 1 (LookupFailed ''element not found'') mt_sampled
       = (Inl ''element not found'', mt_sampled)
   \<and> fst (runTopDiff 2000000000 2000000001 (Decoded (Top.Totals scenarioA_current))
            (snd (runTopDiff 1 1 (LookupFailed ''element not found'') mt_sampled)))
       = Inr (Some (ATopDiff (Top_Diff 2000000001
                 \<lparr> Top.numCores = 4, Top.time = 2000000000,
                   Top.Totals = Top.Totals scenarioA_current \<rparr>
                 scenarioA_previous 0 False)))
   \<and> runOperationMetricsDiff 1 1 (Cursor [DecodeFailed ''bad document''] None)
        (mt_sampled\<lparr> previousOperationMetrics :=
           Some \<lparr> OperationMetrics.numCores = 4, OperationMetrics.time = 0, Entries = [] \<rparr> \<rparr>)
       = (Inl ''failure decoding from cursor, err: bad document'',
          mt_sampled\<lparr> previousOperationMetrics :=
           Some \<lparr> OperationMetrics.numCores = 4, OperationMetrics.time = 0, Entries = [] \<rparr> \<rparr>)"
  by (simp add: runTopDiff_def runOperationMetricsDiff_def mt_sampled_def Let_def)

lemma check_AcquireCount_Some:
  "(check_AcquireCount locks \<noteq> None) = (\<exists>ns \<in> set locks. AcquireCount (snd ns) \<noteq> None)"
  by (induction locks) auto

text \<open>
  Claim C7.  When the \<^verbatim>\<open>serverStatus\<close> command itself succeeds, the lock-usage
  sampling step returns an error (an \<open>Inl\<close>, which carries no diff) exactly when the
  decoded reply has no \<^verbatim>\<open>locks\<close> mapping or some lock entry has a non-nil
  \<^verbatim>\<open>acquireCount\<close>.
\<close>

theorem C7_lock_sampling_error:
  "(\<exists>err. fst (runServerStatusDiff now later (ServerStatusDecoded locks) mt) = Inl err)
     = (locks = None \<or> (\<exists>ns \<in> set (entries_of locks). AcquireCount (snd ns) \<noteq> None))"
proof (cases "locks = None")
  case True
  then show ?thesis by (simp add: runServerStatusDiff_def)
next
  case False
  show ?thesis
  proof (cases "check_AcquireCount (entries_of locks)")
    case None
    with False check_AcquireCount_Some [of "entries_of locks"] show ?thesis
      by (simp add: runServerStatusDiff_def Let_def)
  next
    case (Some e)
    with False check_AcquireCount_Some [of "entries_of locks"] show ?thesis
      by (simp add: runServerStatusDiff_def)
  qed
qed

text \<open>
  The theorem at two replies: one with an entry that carries \<^verbatim>\<open>acquireCount\<close>
  (the specification's Scenario B), which fails, and one without, which does not.
\<close>

theorem C7_lock_sampling_error_witness:
  "(\<exists>err. fst (runServerStatusDiff 1 2
       (ServerStatusDecoded (Some [(''admin'', lock_times 1 2 3 4),
          (''local'', (lock_times 0 0 0 0)\<lparr> AcquireCount := Some ReadWriteLockTimes_zero \<rparr>)]))
       mt_sampled) = Inl err)
   \<and> \<not> (\<exists>err. fst (runServerStatusDiff 1 2
       (ServerStatusDecoded (Some [(''admin'', lock_times 1 2 3 4)])) mt_sampled) = Inl err)"
  using C7_lock_sampling_error [of 1 2
      "Some [(''admin'', lock_times 1 2 3 4),
          (''local'', (lock_times 0 0 0 0)\<lparr> AcquireCount := Some ReadWriteLockTimes_zero \<rparr>)]"
      mt_sampled]
    C7_lock_sampling_error [of 1 2 "Some [(''admin'', lock_times 1 2 3 4)]" mt_sampled]
  by (simp add: entries_of_def lock_times_def)

subsection \<open>The JSON form of an operation-metrics diff\<close>

text \<open>
  Claim C9.  For every operation-metrics diff, whatever it holds, the JSON rendering is
  the 21 characters \<^verbatim>\<open>{"unsupported": true}\<close> (\<open>CHR 0x22\<close> is the double quote).
  The method has no failing branch.
\<close>

theorem C9_JSON_unsupported:
  "OperationMetricsDiff_JSON od
     = CHR ''{'' # CHR 0x22 # ''unsupported'' @ CHR 0x22 # '': true}''
   \<and> length (OperationMetricsDiff_JSON od) = 21"
  by (simp add: OperationMetricsDiff_JSON_def)

subsection \<open>How many entry rows a grid has\<close>

text \<open>
  Sorting keeps the number of entries, and the rendering loop started at index 0 writes
  one row per entry until the index reaches \<^verbatim>\<open>listCount-1\<close>, but at least one.
\<close>

lemma length_sift: "length (sift lt x ys) = Suc (length ys)"
  by (induction ys) auto

lemma length_fold_sift: "length (fold (sift lt) xs acc) = length xs + length acc"
  by (induction xs arbitrary: acc) (auto simp: length_sift)

lemma length_Sort: "length (Sort lt xs) = length xs"
  by (simp add: Sort_def length_fold_sift)

lemma length_ranked: "length (ranked xs) = length xs"
  by (simp add: ranked_def length_Sort)

lemma length_Grid_rows:
  "length (Grid_rows row lc i sts)
     = (if sts = [] then 0 else min (length sts) (nat (max 1 (sint (lc - 1) - int i + 1))))"
proof (induction sts arbitrary: i)
  case Nil
  show ?case by simp
next
  case (Cons st sts)
  show ?case
  proof (cases "sint (lc - 1) \<le> int i")
    case True
    then show ?thesis by simp
  next
    case False
    then show ?thesis using Cons.IH [of "Suc i"] by (cases sts) auto
  qed
qed

lemma sint_pred:
  fixes lc :: "64 word"
  assumes "sint lc \<noteq> - (2 ^ 63)"
  shows "sint (lc - 1) = sint lc - 1"
proof -
  have "- (2 ^ 63) \<le> sint lc" "sint lc < 2 ^ 63"
    using sint_ge [of lc] sint_lt [of lc] by simp_all
  with assms have "- (2 ^ 63) \<le> sint lc - 1" "sint lc - 1 < 2 ^ 63" by linarith+
  then have "signed_take_bit 63 (sint lc - 1) = sint lc - 1"
    by (simp add: signed_take_bit_int_eq_self)
  then show ?thesis by (simp add: sint_word_ariths)
qed

lemma entry_rows_count:
  "length (Grid_rows row lc 0 (ranked totals))
     = (if totals = [] then 0 else min (length totals) (nat (max 1 (sint (lc - 1) + 1))))"
proof -
  have "(ranked totals = []) = (totals = [])"
    using length_ranked [of totals] by (metis length_0_conv)
  then show ?thesis by (simp add: length_Grid_rows length_ranked)
qed

lemma TopDiff_Grid_rows:
  assumes "currentTop td \<noteq> None"
  shows "\<exists>rows. TopDiff_Grid ff stamp td = Inr rows
     \<and> length (tl rows)
         = (if TopDiff.Totals td = [] then 0
            else min (length (TopDiff.Totals td))
                   (nat (max 1 (sint (default_listCount (TopDiff.listCount td) - 1) + 1))))"
proof -
  from assms obtain cur where cur: "currentTop td = Some cur" by auto
  have tot: "TopDiff_totals td = Inr (map (TopDiff_sortable td cur) (TopDiff.Totals td))"
    by (simp add: TopDiff_totals_def cur)
  show ?thesis
    by (simp add: TopDiff_Grid_def tot Let_def entry_rows_count)
qed

lemma OperationMetricsDiff_Grid_rows:
  assumes "currentOperation od \<noteq> None"
  shows "\<exists>rows. OperationMetricsDiff_Grid ff stamp od = Inr rows
     \<and> length (tl rows)
         = (if OperationMetricsDiff.Totals od = [] then 0
            else min (length (OperationMetricsDiff.Totals od))
                   (nat (max 1
                      (sint (default_listCount (OperationMetricsDiff.listCount od) - 1) + 1))))"
proof -
  from assms obtain cur where cur: "currentOperation od = Some cur" by auto
  have tot: "OperationMetricsDiff_totals od
      = Inr (map (OperationMetricsDiff_sortable od cur) (OperationMetricsDiff.Totals od))"
    by (simp add: OperationMetricsDiff_totals_def cur)
  show ?thesis
    by (simp add: OperationMetricsDiff_Grid_def tot Let_def entry_rows_count)
qed

lemma ServerStatusDiff_Grid_rows:
  assumes "currentServerStatus ssd \<noteq> None"
  shows "\<exists>rows. ServerStatusDiff_Grid stamp ssd = Inr rows
     \<and> length (tl rows)
         = (if ServerStatusDiff.Totals ssd = [] then 0
            else min (length (ServerStatusDiff.Totals ssd))
                   (nat (max 1
                      (sint (default_listCount (ServerStatusDiff.listCount ssd) - 1) + 1))))"
proof -
  from assms obtain cur where cur: "currentServerStatus ssd = Some cur" by auto
  have tot: "ServerStatusDiff_totals ssd
      = Inr (map (ServerStatusDiff_sortable cur) (ServerStatusDiff.Totals ssd))"
    by (simp add: ServerStatusDiff_totals_def cur)
  show ?thesis
    by (simp add: ServerStatusDiff_Grid_def tot Let_def entry_rows_count)
qed

lemma shown_nonneg:
  fixes lc :: "64 word"
  assumes "0 \<le> sint lc"
  shows "(if n = 0 then 0 else min n (nat (max 1 (sint (default_listCount lc - 1) + 1))))
     = min n (if lc = 0 then 9 else nat (sint lc))"
proof (cases "lc = 0")
  case True
  then show ?thesis by (simp add: default_listCount_def)
next
  case False
  then have "sint lc \<noteq> 0"
    by (simp add: signed_eq_0_iff)
  with assms have pos: "0 < sint lc" by linarith
  then have "sint (lc - 1) = sint lc - 1" by (intro sint_pred) simp
  with pos False show ?thesis by (simp add: default_listCount_def)
qed

lemma shown_once:
  fixes lc :: "64 word"
  assumes "sint lc \<le> 1" "lc \<noteq> 0" "sint lc \<noteq> - (2 ^ 63)" "n \<noteq> 0"
  shows "(if n = 0 then 0 else min n (nat (max 1 (sint (default_listCount lc - 1) + 1)))) = 1"
proof -
  have "sint (lc - 1) = sint lc - 1" using assms(3) by (rule sint_pred)
  with assms show ?thesis by (simp add: default_listCount_def)
qed

text \<open>
  Claim C8.  A grid whose diff has its current sample attached (as every diff built by
  \<^verbatim>\<open>Diff\<close> has) is rendered, and below its header it has exactly
  \<open>min(listCount, number of diff entries)\<close> entry rows when \<^verbatim>\<open>listCount > 0\<close>; when
  \<^verbatim>\<open>listCount == 0\<close> the default 9 stands in, so at most 9 entry rows are rendered.
\<close>

theorem C8_rows_rendered:
  "(currentTop td \<noteq> None \<and> 0 \<le> sint (TopDiff.listCount td)
      \<longrightarrow> (\<exists>rows. TopDiff_Grid ff stamp td = Inr rows
            \<and> length (tl rows)
                = min (length (TopDiff.Totals td))
                    (if TopDiff.listCount td = 0 then 9 else nat (sint (TopDiff.listCount td)))))
   \<and> (currentOperation od \<noteq> None \<and> 0 \<le> sint (OperationMetricsDiff.listCount od)
      \<longrightarrow> (\<exists>rows. OperationMetricsDiff_Grid ff stamp od = Inr rows
            \<and> length (tl rows)
                = min (length (OperationMetricsDiff.Totals od))
                    (if OperationMetricsDiff.listCount od = 0 then 9
                     else nat (sint (OperationMetricsDiff.listCount od)))))
   \<and> (currentServerStatus ssd \<noteq> None \<and> 0 \<le> sint (ServerStatusDiff.listCount ssd)
      \<longrightarrow> (\<exists>rows. ServerStatusDiff_Grid stamp ssd = Inr rows
            \<and> length (tl rows)
                = min (length (ServerStatusDiff.Totals ssd))
                    (if ServerStatusDiff.listCount ssd = 0 then 9
                     else nat (sint (ServerStatusDiff.listCount ssd)))))"
proof (intro conjI impI)
  assume h: "currentTop td \<noteq> None \<and> 0 \<le> sint (TopDiff.listCount td)"
  show "\<exists>rows. TopDiff_Grid ff stamp td = Inr rows
            \<and> length (tl rows)
                = min (length (TopDiff.Totals td))
                    (if TopDiff.listCount td = 0 then 9 else nat (sint (TopDiff.listCount td)))"
    using TopDiff_Grid_rows [of td ff stamp] h
      shown_nonneg [of "TopDiff.listCount td" "length (TopDiff.Totals td)"]
    by auto
next
  assume h: "currentOperation od \<noteq> None \<and> 0 \<le> sint (OperationMetricsDiff.listCount od)"
  show "\<exists>rows. OperationMetricsDiff_Grid ff stamp od = Inr rows
            \<and> length (tl rows)
                = min (length (OperationMetricsDiff.Totals od))
                    (if OperationMetricsDiff.listCount od = 0 then 9
                     else nat (sint (OperationMetricsDiff.listCount od)))"
    using OperationMetricsDiff_Grid_rows [of od ff stamp] h
      shown_nonneg [of "OperationMetricsDiff.listCount od"
        "length (OperationMetricsDiff.Totals od)"]
    by auto
next
  assume h: "currentServerStatus ssd \<noteq> None \<and> 0 \<le> sint (ServerStatusDiff.listCount ssd)"
  show "\<exists>rows. ServerStatusDiff_Grid stamp ssd = Inr rows
            \<and> length (tl rows)
                = min (length (ServerStatusDiff.Totals ssd))
                    (if ServerStatusDiff.listCount ssd = 0 then 9
                     else nat (sint (ServerStatusDiff.listCount ssd)))"
    using ServerStatusDiff_Grid_rows [of ssd stamp] h
      shown_nonneg [of "ServerStatusDiff.listCount ssd" "length (ServerStatusDiff.Totals ssd)"]
    by auto
qed

text \<open>
  The theorem at a namespace-top diff of two entries with \<^verbatim>\<open>listCount\<close> 1, an
  operation-metrics diff of two entries with \<^verbatim>\<open>listCount\<close> 5, and a lock-usage diff
  of 20 entries with \<^verbatim>\<open>listCount\<close> 0 (the specification's Scenario D).
\<close>

theorem C8_rows_rendered_witness:
  "(\<exists>rows. TopDiff_Grid (\<lambda>P r. []) [] (sample_TopDiff 1 False 0) = Inr rows
        \<and> length (tl rows) = 1)
   \<and> (\<exists>rows. OperationMetricsDiff_Grid (\<lambda>P r. []) [] (sample_OperationMetricsDiff 5 0)
          = Inr rows \<and> length (tl rows) = 2)
   \<and> (\<exists>rows. ServerStatusDiff_Grid []
          (sample_ServerStatusDiff 0 (map (\<lambda>n. (Itoa (int n), LockDelta_zero)) [0..<20]))
          = Inr rows \<and> length (tl rows) = 9)"
  using C8_rows_rendered [where td = "sample_TopDiff 1 False 0"
      and od = "sample_OperationMetricsDiff 5 0"
      and ssd = "sample_ServerStatusDiff 0 (map (\<lambda>n. (Itoa (int n), LockDelta_zero)) [0..<20])"
      and ff = "\<lambda>P r. []" and stamp = "[]"]
  by (auto simp: sample_TopDiff_def sample_OperationMetricsDiff_def sample_ServerStatusDiff_def)

text \<open>
  Claim C10, as amended.  For a diff with at least one entry and a \<^verbatim>\<open>listCount\<close>
  that is at most 1, not 0 (for which 9 is substituted) and not the smallest integer
  \<open>-2\<^sup>6\<^sup>3\<close>, so in particular for every negative \<^verbatim>\<open>listCount\<close> but the smallest,
  each of the three grids has exactly one entry row.
\<close>

theorem C10_listCount_at_most_one:
  "(currentTop td \<noteq> None \<and> TopDiff.Totals td \<noteq> []
      \<and> sint (TopDiff.listCount td) \<le> 1 \<and> TopDiff.listCount td \<noteq> 0
      \<and> sint (TopDiff.listCount td) \<noteq> - (2 ^ 63)
      \<longrightarrow> (\<exists>rows. TopDiff_Grid ff stamp td = Inr rows \<and> length (tl rows) = 1))
   \<and> (currentOperation od \<noteq> None \<and> OperationMetricsDiff.Totals od \<noteq> []
      \<and> sint (OperationMetricsDiff.listCount od) \<le> 1 \<and> OperationMetricsDiff.listCount od \<noteq> 0
      \<and> sint (OperationMetricsDiff.listCount od) \<noteq> - (2 ^ 63)
      \<longrightarrow> (\<exists>rows. OperationMetricsDiff_Grid ff stamp od = Inr rows \<and> length (tl rows) = 1))
   \<and> (currentServerStatus ssd \<noteq> None \<and> ServerStatusDiff.Totals ssd \<noteq> []
      \<and> sint (ServerStatusDiff.listCount ssd) \<le> 1 \<and> ServerStatusDiff.listCount ssd \<noteq> 0
      \<and> sint (ServerStatusDiff.listCount ssd) \<noteq> - (2 ^ 63)
      \<longrightarrow> (\<exists>rows. ServerStatusDiff_Grid stamp ssd = Inr rows \<and> length (tl rows) = 1))"
proof (intro conjI impI)
  assume h: "currentTop td \<noteq> None \<and> TopDiff.Totals td \<noteq> []
      \<and> sint (TopDiff.listCount td) \<le> 1 \<and> TopDiff.listCount td \<noteq> 0
      \<and> sint (TopDiff.listCount td) \<noteq> - (2 ^ 63)"
  then have "(if length (TopDiff.Totals td) = 0 then 0
              else min (length (TopDiff.Totals td))
                (nat (max 1 (sint (default_listCount (TopDiff.listCount td) - 1) + 1)))) = 1"
    by (intro shown_once) simp_all
  with h TopDiff_Grid_rows [of td ff stamp]
  show "\<exists>rows. TopDiff_Grid ff stamp td = Inr rows \<and> length (tl rows) = 1"
    by auto
next
  assume h: "currentOperation od \<noteq> None \<and> OperationMetricsDiff.Totals od \<noteq> []
      \<and> sint (OperationMetricsDiff.listCount od) \<le> 1 \<and> OperationMetricsDiff.listCount od \<noteq> 0
      \<and> sint (OperationMetricsDiff.listCount od) \<noteq> - (2 ^ 63)"
  then have "(if length (OperationMetricsDiff.Totals od) = 0 then 0
              else min (length (OperationMetricsDiff.Totals od))
                (nat (max 1
                   (sint (default_listCount (OperationMetricsDiff.listCount od) - 1) + 1)))) = 1"
    by (intro shown_once) simp_all
  with h OperationMetricsDiff_Grid_rows [of od ff stamp]
  show "\<exists>rows. OperationMetricsDiff_Grid ff stamp od = Inr rows \<and> length (tl rows) = 1"
    by auto
next
  assume h: "currentServerStatus ssd \<noteq> None \<and> ServerStatusDiff.Totals ssd \<noteq> []
      \<and> sint (ServerStatusDiff.listCount ssd) \<le> 1 \<and> ServerStatusDiff.listCount ssd \<noteq> 0
      \<and> sint (ServerStatusDiff.listCount ssd) \<noteq> - (2 ^ 63)"
  then have "(if length (ServerStatusDiff.Totals ssd) = 0 then 0
              else min (length (ServerStatusDiff.Totals ssd))
                (nat (max 1
                   (sint (default_listCount (ServerStatusDiff.listCount ssd) - 1) + 1)))) = 1"
    by (intro shown_once) simp_all
  with h ServerStatusDiff_Grid_rows [of ssd stamp]
  show "\<exists>rows. ServerStatusDiff_Grid stamp ssd = Inr rows \<and> length (tl rows) = 1"
    by auto
qed

theorem C10_listCount_at_most_one_witness:
  "(\<exists>rows. TopDiff_Grid (\<lambda>P r. []) [] (sample_TopDiff (- 3) False 0) = Inr rows
        \<and> length (tl rows) = 1)
   \<and> (\<exists>rows. OperationMetricsDiff_Grid (\<lambda>P r. []) [] (sample_OperationMetricsDiff (- 1) 0)
          = Inr rows \<and> length (tl rows) = 1)
   \<and> (\<exists>rows. ServerStatusDiff_Grid [] (sample_ServerStatusDiff 1 sample_LockDeltas)
          = Inr rows \<and> length (tl rows) = 1)"
  using C10_listCount_at_most_one [where td = "sample_TopDiff (- 3) False 0"
      and od = "sample_OperationMetricsDiff (- 1) 0"
      and ssd = "sample_ServerStatusDiff 1 sample_LockDeltas"
      and ff = "\<lambda>P r. []" and stamp = "[]"]
  by (auto simp: sample_TopDiff_def sample_OperationMetricsDiff_def sample_ServerStatusDiff_def
      sample_LockDeltas_def)

text \<open>
  Claim C10 as stated fails at the smallest \<^verbatim>\<open>listCount\<close>: there
  \<^verbatim>\<open>listCount-1\<close> wraps around to the largest integer, the loop never breaks, and a
  lock-usage diff of two entries is rendered with both rows.
\<close>

theorem C10_smallest_listCount_counterexample:
  "sint (- 9223372036854775808 :: go_int) < 0
   \<and> ServerStatusDiff_Grid ''2026-01-01T00:00:00Z''
        (sample_ServerStatusDiff (- 9223372036854775808) sample_LockDeltas)
       = Inr [[''db'', ''total'', ''read'', ''write'', ''2026-01-01T00:00:00Z''],
              [''b'', ''5ms'', ''5ms'', ''0ms'', []],
              [''a'', ''3ms'', ''1ms'', ''2ms'', []]]"
  by (simp add: ServerStatusDiff_Grid_def ServerStatusDiff_totals_def sample_ServerStatusDiff_def
      sample_LockDeltas_def
      ServerStatusDiff_sortable_def ServerStatusDiff_row_def ServerStatusDiff_header_def
      default_listCount_def index_def entries_of_def LockStats_zero_def LockDelta_zero_def
      ReadWriteLockTimes_zero_def ranked_def Sort_def Reverse_def Less_def IsNaN_def
      float_eq_def float64_of_int_def Sprintf_v_ms_def Itoa_def Itoa_nat.simps Let_def)

subsection \<open>Ranking\<close>

text \<open>
  On entries whose primary metric is not \<^verbatim>\<open>NaN\<close>, the reversed comparison that the
  grids sort with is the ranking order of the specification, and that order is a strict
  total order.
\<close>

lemma float_less_irrefl: "\<not> float_less a a"
  by (cases a) auto

lemma float_less_trans: "float_less a b \<Longrightarrow> float_less b c \<Longrightarrow> float_less a c"
  by (cases a; cases b; cases c) auto

lemma float_less_total: "a \<noteq> NaN \<Longrightarrow> b \<noteq> NaN \<Longrightarrow> a \<noteq> b \<Longrightarrow> float_less a b \<or> float_less b a"
  by (cases a; cases b) auto

lemma Reverse_Less_ranks_before:
  assumes "\<not> IsNaN (sortableTotal.Total x)" "\<not> IsNaN (sortableTotal.Total y)"
  shows "Reverse Less x y = ranks_before x y"
  using assms float_less_irrefl [of "sortableTotal.Total x"]
  by (auto simp: Reverse_def Less_def ranks_before_def float_eq_def IsNaN_def)

lemma ranks_before_irrefl: "\<not> ranks_before x x"
  by (simp add: ranks_before_def float_less_irrefl)

lemma ranks_before_trans:
  assumes "ranks_before x y" "ranks_before y z"
  shows "ranks_before x z"
  using assms float_less_trans [of "sortableTotal.Total z" "sortableTotal.Total y" "sortableTotal.Total x"]
  by (auto simp: ranks_before_def)

lemma ranks_before_total:
  assumes "\<not> IsNaN (sortableTotal.Total x)" "\<not> IsNaN (sortableTotal.Total y)" "x \<noteq> y"
  shows "ranks_before x y \<or> ranks_before y x"
proof (cases "sortableTotal.Total x = sortableTotal.Total y")
  case False
  with assms float_less_total [of "sortableTotal.Total x" "sortableTotal.Total y"]
  show ?thesis by (auto simp: ranks_before_def IsNaN_def)
next
  case T: True
  show ?thesis
  proof (cases "Current x = Current y")
    case False
    then have "sint (Current x) \<noteq> sint (Current y)"
      using word_eq_iff_signed [of "Current x" "Current y"] by simp
    with T show ?thesis by (auto simp: ranks_before_def)
  next
    case True
    with T assms(3) have "Name x \<noteq> Name y" by (cases x; cases y) auto
    with T True show ?thesis by (auto simp: ranks_before_def)
  qed
qed


lemma set_sift: "set (sift lt x ys) = insert x (set ys)"
  by (induction ys) auto

lemma mset_sift: "mset (sift lt x ys) = add_mset x (mset ys)"
  by (induction ys) auto

lemma mset_fold_sift: "mset (fold (sift lt) xs acc) = mset xs + mset acc"
  by (induction xs arbitrary: acc) (auto simp: mset_sift)

lemma mset_Sort: "mset (Sort lt xs) = mset xs"
  by (simp add: Sort_def mset_fold_sift)

lemma sorted_sift:
  assumes ord: "strict_total_order_on A lt"
    and "x \<in> A" "set ys \<subseteq> A" "x \<notin> set ys"
    and "sorted_wrt (\<lambda>a b. lt b a) ys"
  shows "sorted_wrt (\<lambda>a b. lt b a) (sift lt x ys)"
  using assms(3-)
proof (induction ys)
  case Nil
  show ?case by simp
next
  case (Cons y ys)
  show ?case
  proof (cases "lt x y")
    case True
    with Cons show ?thesis by (auto simp: set_sift)
  next
    case False
    with Cons.prems \<open>x \<in> A\<close> ord have yx: "lt y x"
      unfolding strict_total_order_on_def by (metis list.set_intros(1) subsetD)
    have "lt z x" if "z \<in> set ys" for z
    proof -
      from that Cons.prems have "lt z y" "z \<in> A" "y \<in> A" by auto
      with yx \<open>x \<in> A\<close> ord show ?thesis
        unfolding strict_total_order_on_def by blast
    qed
    with False yx Cons.prems show ?thesis by auto
  qed
qed

lemma sorted_fold_sift:
  assumes ord: "strict_total_order_on A lt"
    and "set xs \<subseteq> A" "set acc \<subseteq> A" "distinct xs" "set xs \<inter> set acc = {}"
    and "sorted_wrt (\<lambda>a b. lt b a) acc"
  shows "sorted_wrt (\<lambda>a b. lt b a) (fold (sift lt) xs acc)"
  using assms(2-)
proof (induction xs arbitrary: acc)
  case Nil
  then show ?case by simp
next
  case (Cons x xs)
  have "sorted_wrt (\<lambda>a b. lt b a) (sift lt x acc)"
    using Cons.prems by (intro sorted_sift [OF ord]) auto
  moreover have "set (sift lt x acc) \<subseteq> A" "set xs \<inter> set (sift lt x acc) = {}"
    using Cons.prems by (auto simp: set_sift)
  ultimately show ?case
    using Cons.prems Cons.IH [of "sift lt x acc"] by simp
qed

lemma sorted_Sort:
  assumes "strict_total_order_on A lt" "set xs \<subseteq> A" "distinct xs"
  shows "sorted_wrt lt (Sort lt xs)"
  using sorted_fold_sift [OF assms(1,2), of "[]"] assms(3)
  by (simp add: Sort_def sorted_wrt_rev)

lemma sorted_wrt_unique:
  assumes ord: "strict_total_order_on A lt"
    and "set xs \<subseteq> A" "sorted_wrt lt xs" "sorted_wrt lt ys" "mset xs = mset ys"
  shows "xs = ys"
  using assms(2-)
proof (induction xs arbitrary: ys)
  case Nil
  then show ?case by simp
next
  case (Cons x xs)
  from Cons.prems(4) obtain y ys' where ys: "ys = y # ys'"
    by (cases ys) auto
  have sets: "set (x # xs) = set ys" using Cons.prems(4) by (metis mset_eq_setD)
  have xy: "x = y"
  proof (rule ccontr)
    assume ne: "x \<noteq> y"
    from sets ys ne have "x \<in> set ys'" "y \<in> set xs" by auto
    with Cons.prems(2,3) ys have "lt y x" "lt x y" by auto
    moreover have "x \<in> A" "y \<in> A" using Cons.prems(1) sets ys by auto
    ultimately show False using ord unfolding strict_total_order_on_def by blast
  qed
  with Cons.prems ys have "xs = ys'" by (intro Cons.IH) auto
  with xy ys show ?case by simp
qed

lemma Less_order:
  "strict_total_order_on {x. \<not> IsNaN (sortableTotal.Total x)} Less"
proof -
  have L: "Less x y = ranks_before y x"
    if "\<not> IsNaN (sortableTotal.Total x)" "\<not> IsNaN (sortableTotal.Total y)" for x y
    using Reverse_Less_ranks_before [OF that(2,1)] by (simp add: Reverse_def)
  show ?thesis
    unfolding strict_total_order_on_def
  proof (intro conjI ballI impI)
    fix x :: sortableTotal
    assume "x \<in> {x. \<not> IsNaN (sortableTotal.Total x)}"
    then show "\<not> Less x x" by (simp add: L ranks_before_irrefl)
  next
    fix x y z :: sortableTotal
    assume "x \<in> {x. \<not> IsNaN (sortableTotal.Total x)}" "y \<in> {x. \<not> IsNaN (sortableTotal.Total x)}"
      "z \<in> {x. \<not> IsNaN (sortableTotal.Total x)}" "Less x y \<and> Less y z"
    then show "Less x z" using ranks_before_trans [of z y x] by (simp add: L)
  next
    fix x y :: sortableTotal
    assume "x \<in> {x. \<not> IsNaN (sortableTotal.Total x)}" "y \<in> {x. \<not> IsNaN (sortableTotal.Total x)}"
      "x \<noteq> y"
    then show "Less x y \<or> Less y x" using ranks_before_total [of x y] by (auto simp: L)
  qed
qed

lemma strict_total_order_on_subset:
  "strict_total_order_on A lt \<Longrightarrow> B \<subseteq> A \<Longrightarrow> strict_total_order_on B lt"
  unfolding strict_total_order_on_def by (meson subsetD)

lemma strict_total_order_on_Reverse:
  "strict_total_order_on A lt \<Longrightarrow> strict_total_order_on A (Reverse lt)"
  unfolding strict_total_order_on_def Reverse_def by blast

text \<open>
  Claim C4, as amended.  On entries whose primary metrics are not \<^verbatim>\<open>NaN\<close> and whose keys
  are distinct, the comparator \<^verbatim>\<open>Less\<close> is a strict total order, and ranking the same
  entries from any initial order \<^verbatim>\<open>ys\<close> yields the same sequence.  That sequence is a
  permutation of the entries in which each entry ranks before every later one: a larger
  primary metric first, for equal metrics the larger current value first, for entries
  still tied the smaller key first (ascending, not descending).  It is the only
  arrangement of the entries in that order, so it does not depend on the sorting
  procedure.
\<close>

theorem C4_ranking_total_order:
  "(\<forall>x\<in>set xs. \<not> IsNaN (sortableTotal.Total x)) \<and> distinct (map Name xs) \<and> mset ys = mset xs
   \<longrightarrow> strict_total_order_on (set xs) Less
       \<and> ranked ys = ranked xs
       \<and> mset (ranked xs) = mset xs
       \<and> sorted_wrt ranks_before (ranked xs)
       \<and> (mset zs = mset xs \<and> sorted_wrt ranks_before zs \<longrightarrow> zs = ranked xs)"
proof (intro impI)
  assume h: "(\<forall>x\<in>set xs. \<not> IsNaN (sortableTotal.Total x)) \<and> distinct (map Name xs)
    \<and> mset ys = mset xs"
  let ?A = "{x. \<not> IsNaN (sortableTotal.Total x)}"
  have xs: "set xs \<subseteq> ?A" and dxs: "distinct xs"
    using h by (auto simp: distinct_map)
  have ys: "set ys \<subseteq> ?A" and dys: "distinct ys"
    using h xs dxs mset_eq_setD [of ys xs] mset_eq_imp_distinct_iff [of ys xs] by auto
  have ordL: "strict_total_order_on (set xs) Less"
    using Less_order xs by (rule strict_total_order_on_subset)
  have ordR: "strict_total_order_on ?A (Reverse Less)"
    using Less_order by (rule strict_total_order_on_Reverse)
  have rb: "strict_total_order_on ?A ranks_before"
    unfolding strict_total_order_on_def
    using ranks_before_irrefl ranks_before_trans ranks_before_total by blast
  have perm: "mset (ranked xs) = mset xs"
    by (simp add: ranked_def mset_Sort)
  have set_r: "set (ranked xs) = set xs"
    using perm by (rule mset_eq_setD)
  have sx: "sorted_wrt (Reverse Less) (ranked xs)"
    unfolding ranked_def using ordR xs dxs by (rule sorted_Sort)
  have sy: "sorted_wrt (Reverse Less) (ranked ys)"
    unfolding ranked_def using ordR ys dys by (rule sorted_Sort)
  have "ranked xs = ranked ys"
    using ordR _ sx sy
  proof (rule sorted_wrt_unique)
    show "set (ranked xs) \<subseteq> ?A" using set_r xs by simp
    show "mset (ranked xs) = mset (ranked ys)" using h by (simp add: ranked_def mset_Sort)
  qed
  moreover have srb: "sorted_wrt ranks_before (ranked xs)"
    using sx
  proof (rule sorted_wrt_mono_rel [rotated])
    fix a b assume "a \<in> set (ranked xs)" "b \<in> set (ranked xs)" "Reverse Less a b"
    then show "ranks_before a b"
      using Reverse_Less_ranks_before [of a b] set_r xs by auto
  qed
  moreover have "zs = ranked xs" if "mset zs = mset xs \<and> sorted_wrt ranks_before zs"
    using rb
  proof (rule sorted_wrt_unique)
    show "set zs \<subseteq> ?A" using that xs mset_eq_setD [of zs xs] by auto
    show "sorted_wrt ranks_before zs" using that by simp
    show "sorted_wrt ranks_before (ranked xs)" by (fact srb)
    show "mset zs = mset (ranked xs)" using that perm by simp
  qed
  ultimately show "strict_total_order_on (set xs) Less
       \<and> ranked ys = ranked xs
       \<and> mset (ranked xs) = mset xs
       \<and> sorted_wrt ranks_before (ranked xs)
       \<and> (mset zs = mset xs \<and> sorted_wrt ranks_before zs \<longrightarrow> zs = ranked xs)"
    using ordL perm by simp
qed

text \<open>
  The theorem at four entries, three of them tied on the metric and two of those also on
  the current value.
\<close>

theorem C4_ranking_total_order_witness:
  "ranked [sortable ''c'' (Fin 3) 0, sortable ''a'' (Fin 1) 0, sortable ''d'' (Fin 1) 7,
           sortable ''b'' (Fin 1) 0]
     = ranked [sortable ''a'' (Fin 1) 0, sortable ''b'' (Fin 1) 0, sortable ''c'' (Fin 3) 0,
               sortable ''d'' (Fin 1) 7]
   \<and> [sortable ''c'' (Fin 3) 0, sortable ''d'' (Fin 1) 7, sortable ''a'' (Fin 1) 0,
       sortable ''b'' (Fin 1) 0]
     = ranked [sortable ''a'' (Fin 1) 0, sortable ''b'' (Fin 1) 0, sortable ''c'' (Fin 3) 0,
               sortable ''d'' (Fin 1) 7]"
  using C4_ranking_total_order [where
      xs = "[sortable ''a'' (Fin 1) 0, sortable ''b'' (Fin 1) 0, sortable ''c'' (Fin 3) 0,
             sortable ''d'' (Fin 1) 7]"
      and ys = "[sortable ''c'' (Fin 3) 0, sortable ''a'' (Fin 1) 0, sortable ''d'' (Fin 1) 7,
             sortable ''b'' (Fin 1) 0]"
      and zs = "[sortable ''c'' (Fin 3) 0, sortable ''d'' (Fin 1) 7, sortable ''a'' (Fin 1) 0,
             sortable ''b'' (Fin 1) 0]"]
  by (simp add: sortable_def IsNaN_def ranks_before_def)

text \<open>
  Claim C4 as stated fails twice.  With \<^verbatim>\<open>NaN\<close> metrics the comparator is no order (an
  entry is less than itself) and ranking the same two entries yields either order,
  depending on the order the map was iterated in.  And two entries tied on metric and
  current value are rendered with the smaller key first.
\<close>

theorem C4_ranking_counterexample:
  "Less (sortable ''a'' NaN 0) (sortable ''a'' NaN 0)
   \<and> ranked [sortable ''a'' NaN 0, sortable ''b'' NaN 0]
       = [sortable ''b'' NaN 0, sortable ''a'' NaN 0]
   \<and> ranked [sortable ''b'' NaN 0, sortable ''a'' NaN 0]
       = [sortable ''a'' NaN 0, sortable ''b'' NaN 0]
   \<and> ranked [sortable ''b'' (Fin 1) 0, sortable ''a'' (Fin 1) 0]
       = [sortable ''a'' (Fin 1) 0, sortable ''b'' (Fin 1) 0]
   \<and> ''a'' < ''b''"
  by (simp add: sortable_def ranked_def Sort_def Reverse_def Less_def IsNaN_def float_eq_def)

text \<open>
  Whatever the entries, sorting with the reversed comparator never leaves an entry with
  a \<^verbatim>\<open>NaN\<close> metric in front of one without; and the rendering loop writes the rows of a
  prefix of the ranked entries, in their order.
\<close>

lemma sift_NaN_last:
  assumes "sorted_wrt (\<lambda>a b. \<not> (IsNaN (sortableTotal.Total b) \<and> \<not> IsNaN (sortableTotal.Total a))) ys"
  shows "sorted_wrt (\<lambda>a b. \<not> (IsNaN (sortableTotal.Total b) \<and> \<not> IsNaN (sortableTotal.Total a)))
           (sift (Reverse Less) x ys)"
  using assms
proof (induction ys)
  case Nil
  show ?case by simp
next
  case (Cons y ys)
  show ?case
  proof (cases "Reverse Less x y")
    case True
    then have "\<not> (IsNaN (sortableTotal.Total x) \<and> \<not> IsNaN (sortableTotal.Total y))"
      by (auto simp: Reverse_def Less_def split: if_splits)
    with True Cons show ?thesis by (auto simp: set_sift)
  next
    case False
    then have "\<not> (IsNaN (sortableTotal.Total y) \<and> \<not> IsNaN (sortableTotal.Total x))"
      by (auto simp: Reverse_def Less_def split: if_splits)
    with False Cons.prems show ?thesis by auto
  qed
qed

lemma fold_sift_NaN_last:
  assumes "sorted_wrt (\<lambda>a b. \<not> (IsNaN (sortableTotal.Total b) \<and> \<not> IsNaN (sortableTotal.Total a))) acc"
  shows "sorted_wrt (\<lambda>a b. \<not> (IsNaN (sortableTotal.Total b) \<and> \<not> IsNaN (sortableTotal.Total a)))
           (fold (sift (Reverse Less)) xs acc)"
  using assms
proof (induction xs arbitrary: acc)
  case Nil
  then show ?case by simp
next
  case (Cons x xs)
  from Cons.IH [OF sift_NaN_last [OF Cons.prems, of x]] show ?case by simp
qed

lemma ranked_NaN_last:
  "sorted_wrt (\<lambda>a b. \<not> (IsNaN (sortableTotal.Total a) \<and> \<not> IsNaN (sortableTotal.Total b)))
     (ranked totals)"
  using fold_sift_NaN_last [of "[]" totals]
  by (simp add: ranked_def Sort_def sorted_wrt_rev)

lemma Grid_rows_take:
  "Grid_rows row lc i sts = map row (take (nat (max 1 (sint (lc - 1) - int i + 1))) sts)"
proof (induction sts arbitrary: i)
  case Nil
  show ?case by simp
next
  case (Cons st sts)
  show ?case
  proof (cases "sint (lc - 1) \<le> int i")
    case True
    then show ?thesis by simp
  next
    case False
    then obtain k where k: "nat (max 1 (sint (lc - 1) - int i + 1)) = Suc k"
      and k': "nat (max 1 (sint (lc - 1) - int (Suc i) + 1)) = k"
      by (cases "nat (max 1 (sint (lc - 1) - int i + 1))") auto
    from False show ?thesis using Cons.IH [of "Suc i"] by (simp only: k k' Grid_rows.simps) simp
  qed
qed

lemma TopDiff_Grid_ranked:
  assumes "currentTop td = Some cur"
  shows "TopDiff_Grid ff stamp td
     = Inr (TopDiff_header stamp
            # map (TopDiff_row ff td (float64_of_int (quo (TopDiff.elapsed td) 1000000))
                     (float64_of_int (quo (TopDiff.elapsed td) 1000000000)))
                (take (nat (max 1 (sint (default_listCount (TopDiff.listCount td) - 1) + 1)))
                   (ranked (map (TopDiff_sortable td cur) (TopDiff.Totals td)))))"
proof -
  have tot: "TopDiff_totals td = Inr (map (TopDiff_sortable td cur) (TopDiff.Totals td))"
    by (simp add: TopDiff_totals_def assms)
  show ?thesis
    by (simp add: TopDiff_Grid_def tot Let_def Grid_rows_take)
qed

text \<open>
  Claim C3, as amended.  In the ranked entries no entry whose primary metric is \<^verbatim>\<open>NaN\<close>
  stands before an entry whose primary metric is not \<^verbatim>\<open>NaN\<close>: the \<^verbatim>\<open>NaN\<close> entries come
  last, not first.  The entry rows of a namespace-top grid are the rows of the first
  entries of that ranking, in the same order.
\<close>

theorem C3_NaN_ranked_last:
  "sorted_wrt (\<lambda>a b. \<not> (IsNaN (sortableTotal.Total a) \<and> \<not> IsNaN (sortableTotal.Total b)))
     (ranked totals)
   \<and> (currentTop td = Some cur \<longrightarrow>
        TopDiff_Grid ff stamp td
          = Inr (TopDiff_header stamp
                 # map (TopDiff_row ff td (float64_of_int (quo (TopDiff.elapsed td) 1000000))
                          (float64_of_int (quo (TopDiff.elapsed td) 1000000000)))
                     (take (nat (max 1 (sint (default_listCount (TopDiff.listCount td) - 1) + 1)))
                        (ranked (map (TopDiff_sortable td cur) (TopDiff.Totals td))))))"
  using ranked_NaN_last TopDiff_Grid_ranked by blast

text \<open>
  The theorem at the sample diff sorted by latency: the busy namespace (5 ms per
  operation) is rendered before the idle one, whose latency is 0/0.
\<close>

theorem C3_NaN_ranked_last_witness:
  "map hd (tl (projr (TopDiff_Grid (\<lambda>P r. ''#'') ''now'' (sample_TopDiff 0 True 2000000000))))
     = [''db.busy'', ''db.idle'']
   \<and> map sortableTotal.Total
        (ranked (map (TopDiff_sortable (sample_TopDiff 0 True 2000000000) sample_Top)
                   (TopDiff.Totals (sample_TopDiff 0 True 2000000000))))
     = [Fin 5, NaN]"
  using C3_NaN_ranked_last [where td = "sample_TopDiff 0 True 2000000000" and cur = sample_Top
      and ff = "\<lambda>P r. ''#''" and stamp = "''now''" and totals = "[]"]
  by (simp add: sample_TopDiff_def default_listCount_def TopDiff_sortable_def TopDiff_row_def
      NSTopInfo_zero_def float64_of_int_def index_def
      ranked_def Sort_def Reverse_def Less_def IsNaN_def float_eq_def Let_def)

text \<open>
  Claim C3 as stated fails at the same diff: the entry with the \<^verbatim>\<open>NaN\<close> metric is
  visited first by the loop over the map and rendered last.
\<close>

theorem C3_NaN_first_counterexample:
  "IsNaN (sortableTotal.Total
            (TopDiff_sortable (sample_TopDiff 0 True 2000000000) sample_Top
               (''db.idle'', NSTopInfo_zero)))
   \<and> TopDiff_Grid (\<lambda>P r. ''#'') ''now'' (sample_TopDiff 0 True 2000000000)
       = Inr [TopDiff_header ''now'',
              [''db.busy'', ''5ms'', ''#%'', ''#%'', ''#ms/op'', ''#op/s'',
               ''5ms'', ''#%'', ''#ms/op'', ''#op/s'', ''0ms'', ''#%'', ''NaNms/op'', ''#op/s'', []],
              [''db.idle'', ''0ms'', ''#%'', ''#%'', ''NaNms/op'', ''#op/s'',
               ''0ms'', ''#%'', ''NaNms/op'', ''#op/s'', ''0ms'', ''#%'', ''NaNms/op'', ''#op/s'', []]]"
  by (simp add: TopDiff_Grid_def TopDiff_totals_def sample_TopDiff_def sample_Top_def
      default_listCount_def TopDiff_sortable_def TopDiff_row_def
      NSTopInfo_zero_def float64_of_int_def index_def quo_def signed_divide_int_def
      Sprintf_f_def Sprintf_v_ms_def Itoa_def Itoa_nat.simps
      ranked_def Sort_def Reverse_def Less_def IsNaN_def float_eq_def Let_def)

subsection \<open>Zero divisors in a grid\<close>

text \<open>
  A floating-point quotient by a zero converted from an integer is \<^verbatim>\<open>NaN\<close> or an
  infinity, stays so when multiplied by 100 or divided by the number of cores, and is
  printed as a sentinel.
\<close>

lemma fdiv_by_zero: "fdiv (float64_of_int x) (float64_of_int 0) \<in> {NaN, PInf, NInf}"
  by (simp add: float64_of_int_def)

lemma fmul_special: "v \<in> {NaN, PInf, NInf} \<Longrightarrow> fmul v (Fin 100) \<in> {NaN, PInf, NInf}"
  by auto

lemma fdiv_special: "v \<in> {NaN, PInf, NInf} \<Longrightarrow> fdiv v (float64_of_int n) \<in> {NaN, PInf, NInf}"
  by (auto simp: float64_of_int_def split: if_splits)

lemma Sprintf_f_special:
  "v \<in> {NaN, PInf, NInf} \<Longrightarrow> sentinel_cell suffix (Sprintf_f ff P suffix v)"
  by (auto simp: Sprintf_f_def sentinel_cell_def)

lemmas zero_divisor_cells =
  Sprintf_f_special [OF fdiv_by_zero]
  Sprintf_f_special [OF fmul_special [OF fdiv_by_zero]]
  Sprintf_f_special [OF fdiv_special [OF fmul_special [OF fdiv_by_zero]]]

lemma length_TopDiff_row: "length (TopDiff_row ff td em es st) = 15"
  by (simp add: TopDiff_row_def Let_def)

lemma length_OperationMetricsDiff_row: "length (OperationMetricsDiff_row ff od es st) = 6"
  by (simp add: OperationMetricsDiff_row_def Let_def)

lemma TopDiff_row_per_second:
  "sentinel_cell ''op/s'' (TopDiff_row ff td em (float64_of_int 0) st ! 5)
   \<and> sentinel_cell ''op/s'' (TopDiff_row ff td em (float64_of_int 0) st ! 9)
   \<and> sentinel_cell ''op/s'' (TopDiff_row ff td em (float64_of_int 0) st ! 13)"
  by (simp add: TopDiff_row_def Let_def zero_divisor_cells)

lemma TopDiff_row_percent:
  "sentinel_cell ''%'' (TopDiff_row ff td (float64_of_int 0) es st ! 2)
   \<and> sentinel_cell ''%'' (TopDiff_row ff td (float64_of_int 0) es st ! 3)
   \<and> sentinel_cell ''%'' (TopDiff_row ff td (float64_of_int 0) es st ! 7)
   \<and> sentinel_cell ''%'' (TopDiff_row ff td (float64_of_int 0) es st ! 11)"
  by (simp add: TopDiff_row_def Let_def zero_divisor_cells)

lemma TopDiff_row_per_op:
  "TopDiff_row ff td em es st ! 0 = Name st
   \<and> (Count (NSTopInfo.Total (index NSTopInfo_zero (TopDiff.Totals td) (Name st))) = 0
        \<longrightarrow> sentinel_cell ''ms/op'' (TopDiff_row ff td em es st ! 4))
   \<and> (Count (NSTopInfo.Read (index NSTopInfo_zero (TopDiff.Totals td) (Name st))) = 0
        \<longrightarrow> sentinel_cell ''ms/op'' (TopDiff_row ff td em es st ! 8))
   \<and> (Count (NSTopInfo.Write (index NSTopInfo_zero (TopDiff.Totals td) (Name st))) = 0
        \<longrightarrow> sentinel_cell ''ms/op'' (TopDiff_row ff td em es st ! 12))"
  by (simp add: TopDiff_row_def Let_def zero_divisor_cells)

lemma OperationMetricsDiff_row_per_second:
  "sentinel_cell ''Units/s'' (OperationMetricsDiff_row ff od (float64_of_int 0) st ! 2)
   \<and> sentinel_cell ''RUnits/s'' (OperationMetricsDiff_row ff od (float64_of_int 0) st ! 3)
   \<and> sentinel_cell ''WUnits/s'' (OperationMetricsDiff_row ff od (float64_of_int 0) st ! 4)"
  by (simp add: OperationMetricsDiff_row_def Let_def zero_divisor_cells)

lemma OperationMetricsDiff_Grid_ranked:
  assumes "currentOperation od = Some cur"
  shows "OperationMetricsDiff_Grid ff stamp od
     = Inr (OperationMetricsDiff_header stamp
            # map (OperationMetricsDiff_row ff od
                     (float64_of_int (quo (OperationMetricsDiff.elapsed od) 1000000000)))
                (take (nat (max 1
                   (sint (default_listCount (OperationMetricsDiff.listCount od) - 1) + 1)))
                   (ranked (map (OperationMetricsDiff_sortable od cur)
                      (OperationMetricsDiff.Totals od)))))"
proof -
  have tot: "OperationMetricsDiff_totals od
      = Inr (map (OperationMetricsDiff_sortable od cur) (OperationMetricsDiff.Totals od))"
    by (simp add: OperationMetricsDiff_totals_def assms)
  show ?thesis
    by (simp add: OperationMetricsDiff_Grid_def tot Let_def Grid_rows_take)
qed

text \<open>
  Claim C6.  Rendering a namespace-top or operation-metrics diff (one with its current
  sample attached) returns a grid and never panics, whatever the elapsed time and the
  count deltas are; every row has all its cells.  If the elapsed time truncates to zero
  seconds, each per-second cell of each entry row is a sentinel (\<^verbatim>\<open>NaN\<close>, \<^verbatim>\<open>+Inf\<close> or
  \<^verbatim>\<open>-Inf\<close> with its unit); if it truncates to zero milliseconds, so is each percentage
  cell; and the per-operation cell of an entry whose count delta is zero is a sentinel.
\<close>

theorem C6_zero_divisors_render:
  "(currentTop td \<noteq> None \<longrightarrow>
      (\<exists>rows. TopDiff_Grid ff stamp td = Inr rows
         \<and> (\<forall>r\<in>set rows. length r = 15)
         \<and> (quo (TopDiff.elapsed td) 1000000000 = 0 \<longrightarrow>
              (\<forall>r\<in>set (tl rows). sentinel_cell ''op/s'' (r ! 5)
                 \<and> sentinel_cell ''op/s'' (r ! 9) \<and> sentinel_cell ''op/s'' (r ! 13)))
         \<and> (quo (TopDiff.elapsed td) 1000000 = 0 \<longrightarrow>
              (\<forall>r\<in>set (tl rows). sentinel_cell ''%'' (r ! 2) \<and> sentinel_cell ''%'' (r ! 3)
                 \<and> sentinel_cell ''%'' (r ! 7) \<and> sentinel_cell ''%'' (r ! 11)))
         \<and> (\<forall>r\<in>set (tl rows).
              (Count (NSTopInfo.Total (index NSTopInfo_zero (TopDiff.Totals td) (r ! 0))) = 0
                 \<longrightarrow> sentinel_cell ''ms/op'' (r ! 4))
              \<and> (Count (NSTopInfo.Read (index NSTopInfo_zero (TopDiff.Totals td) (r ! 0))) = 0
                 \<longrightarrow> sentinel_cell ''ms/op'' (r ! 8))
              \<and> (Count (NSTopInfo.Write (index NSTopInfo_zero (TopDiff.Totals td) (r ! 0))) = 0
                 \<longrightarrow> sentinel_cell ''ms/op'' (r ! 12)))))
   \<and> (currentOperation od \<noteq> None \<longrightarrow>
      (\<exists>rows. OperationMetricsDiff_Grid ff stamp od = Inr rows
         \<and> (\<forall>r\<in>set rows. length r = 6)
         \<and> (quo (OperationMetricsDiff.elapsed od) 1000000000 = 0 \<longrightarrow>
              (\<forall>r\<in>set (tl rows). sentinel_cell ''Units/s'' (r ! 2)
                 \<and> sentinel_cell ''RUnits/s'' (r ! 3) \<and> sentinel_cell ''WUnits/s'' (r ! 4)))))"
proof (intro conjI impI)
  assume "currentTop td \<noteq> None"
  then obtain cur where cur: "currentTop td = Some cur" by auto
  show "\<exists>rows. TopDiff_Grid ff stamp td = Inr rows
         \<and> (\<forall>r\<in>set rows. length r = 15)
         \<and> (quo (TopDiff.elapsed td) 1000000000 = 0 \<longrightarrow>
              (\<forall>r\<in>set (tl rows). sentinel_cell ''op/s'' (r ! 5)
                 \<and> sentinel_cell ''op/s'' (r ! 9) \<and> sentinel_cell ''op/s'' (r ! 13)))
         \<and> (quo (TopDiff.elapsed td) 1000000 = 0 \<longrightarrow>
              (\<forall>r\<in>set (tl rows). sentinel_cell ''%'' (r ! 2) \<and> sentinel_cell ''%'' (r ! 3)
                 \<and> sentinel_cell ''%'' (r ! 7) \<and> sentinel_cell ''%'' (r ! 11)))
         \<and> (\<forall>r\<in>set (tl rows).
              (Count (NSTopInfo.Total (index NSTopInfo_zero (TopDiff.Totals td) (r ! 0))) = 0
                 \<longrightarrow> sentinel_cell ''ms/op'' (r ! 4))
              \<and> (Count (NSTopInfo.Read (index NSTopInfo_zero (TopDiff.Totals td) (r ! 0))) = 0
                 \<longrightarrow> sentinel_cell ''ms/op'' (r ! 8))
              \<and> (Count (NSTopInfo.Write (index NSTopInfo_zero (TopDiff.Totals td) (r ! 0))) = 0
                 \<longrightarrow> sentinel_cell ''ms/op'' (r ! 12)))"
    unfolding TopDiff_Grid_ranked [OF cur]
  proof (intro exI conjI impI ballI)
    show "Inr (TopDiff_header stamp
            # map (TopDiff_row ff td (float64_of_int (quo (TopDiff.elapsed td) 1000000))
                     (float64_of_int (quo (TopDiff.elapsed td) 1000000000)))
                (take (nat (max 1 (sint (default_listCount (TopDiff.listCount td) - 1) + 1)))
                   (ranked (map (TopDiff_sortable td cur) (TopDiff.Totals td)))))
        = Inr (TopDiff_header stamp
            # map (TopDiff_row ff td (float64_of_int (quo (TopDiff.elapsed td) 1000000))
                     (float64_of_int (quo (TopDiff.elapsed td) 1000000000)))
                (take (nat (max 1 (sint (default_listCount (TopDiff.listCount td) - 1) + 1)))
                   (ranked (map (TopDiff_sortable td cur) (TopDiff.Totals td)))))"
      by (rule refl)
  qed (auto simp: length_TopDiff_row TopDiff_header_def TopDiff_row_per_second
        TopDiff_row_percent TopDiff_row_per_op)
next
  assume "currentOperation od \<noteq> None"
  then obtain cur where cur: "currentOperation od = Some cur" by auto
  show "\<exists>rows. OperationMetricsDiff_Grid ff stamp od = Inr rows
         \<and> (\<forall>r\<in>set rows. length r = 6)
         \<and> (quo (OperationMetricsDiff.elapsed od) 1000000000 = 0 \<longrightarrow>
              (\<forall>r\<in>set (tl rows). sentinel_cell ''Units/s'' (r ! 2)
                 \<and> sentinel_cell ''RUnits/s'' (r ! 3) \<and> sentinel_cell ''WUnits/s'' (r ! 4)))"
    unfolding OperationMetricsDiff_Grid_ranked [OF cur]
    by (auto simp: length_OperationMetricsDiff_row OperationMetricsDiff_header_def
        OperationMetricsDiff_row_per_second)
qed

text \<open>
  The theorem at two samples taken less than a millisecond (less than a second) apart,
  with the grid that is rendered.
\<close>

theorem C6_zero_divisors_render_witness:
  "(\<exists>rows. TopDiff_Grid (\<lambda>P r. ''#'') ''now'' (sample_TopDiff 0 False 999999) = Inr rows
        \<and> (\<forall>r\<in>set rows. length r = 15)
        \<and> (\<forall>r\<in>set (tl rows). sentinel_cell ''op/s'' (r ! 5) \<and> sentinel_cell ''%'' (r ! 2)))
   \<and> (\<exists>rows. OperationMetricsDiff_Grid (\<lambda>P r. ''#'') ''now''
                 (sample_OperationMetricsDiff 0 999999999) = Inr rows
        \<and> (\<forall>r\<in>set (tl rows). sentinel_cell ''Units/s'' (r ! 2)))
   \<and> TopDiff_Grid (\<lambda>P r. ''#'') ''now'' (sample_TopDiff 0 False 999999)
       = Inr [TopDiff_header ''now'',
              [''db.busy'', ''5ms'', ''+Inf%'', ''+Inf%'', ''#ms/op'', ''+Infop/s'',
               ''5ms'', ''+Inf%'', ''#ms/op'', ''+Infop/s'',
               ''0ms'', ''NaN%'', ''NaNms/op'', ''NaNop/s'', []],
              [''db.idle'', ''0ms'', ''NaN%'', ''NaN%'', ''NaNms/op'', ''NaNop/s'',
               ''0ms'', ''NaN%'', ''NaNms/op'', ''NaNop/s'',
               ''0ms'', ''NaN%'', ''NaNms/op'', ''NaNop/s'', []]]"
proof -
  have e: "quo (999999 :: 64 word) 1000000 = 0" "quo (999999 :: 64 word) 1000000000 = 0"
    "quo (999999999 :: 64 word) 1000000000 = 0"
    by (simp_all add: quo_def signed_divide_int_def)
  have grid: "TopDiff_Grid (\<lambda>P r. ''#'') ''now'' (sample_TopDiff 0 False 999999)
       = Inr [TopDiff_header ''now'',
              [''db.busy'', ''5ms'', ''+Inf%'', ''+Inf%'', ''#ms/op'', ''+Infop/s'',
               ''5ms'', ''+Inf%'', ''#ms/op'', ''+Infop/s'',
               ''0ms'', ''NaN%'', ''NaNms/op'', ''NaNop/s'', []],
              [''db.idle'', ''0ms'', ''NaN%'', ''NaN%'', ''NaNms/op'', ''NaNop/s'',
               ''0ms'', ''NaN%'', ''NaNms/op'', ''NaNop/s'',
               ''0ms'', ''NaN%'', ''NaNms/op'', ''NaNop/s'', []]]"
    by (simp add: TopDiff_Grid_def TopDiff_totals_def sample_TopDiff_def sample_Top_def
        default_listCount_def TopDiff_sortable_def TopDiff_row_def e
        NSTopInfo_zero_def float64_of_int_def index_def
        Sprintf_f_def Sprintf_v_ms_def Itoa_def Itoa_nat.simps
        ranked_def Sort_def Reverse_def Less_def IsNaN_def float_eq_def Let_def)
  show ?thesis
    using C6_zero_divisors_render [where td = "sample_TopDiff 0 False 999999"
        and od = "sample_OperationMetricsDiff 0 999999999"
        and ff = "\<lambda>P r. ''#''" and stamp = "''now''"] e grid
    by (auto simp: sample_TopDiff_def sample_OperationMetricsDiff_def)
qed

end
